theory Spec2Isabelle
  imports Complex_Main
begin

section \<open>The login script and its four variants\<close>

text \<open>
  \<^verbatim>\<open>src/index.js\<close> holds four successive variants of one script, separated by marker
  lines.  They are referred to as
  \<^item> V1 (lines 1-348): spinners, solvers 2captcha / anticaptcha / manual;
  \<^item> V2 (lines 349-627): V1 without spinners and manual entry (not modelled: no claim
    cites it and its control flow is that of V1);
  \<^item> V3 (lines 628-983): proxies, every sub-request retried, \<^verbatim>\<open>loginAccount\<close> retried
    \<^verbatim>\<open>LOGIN_RETRIES = 3\<close> times;
  \<^item> V4 (lines 984-1412): Gemini / Telegram / manual solvers, \<^verbatim>\<open>loginAccountWithRetry\<close>
    retrying without bound.
  A function that exists in several variants carries the variant as a suffix.

  Everything outside the script (the HTTP server, the solving services, the operator, the
  file system, \<^verbatim>\<open>Math.random\<close>) is an environment \<open>env\<close> of oracles.  Each interaction
  reads the oracle at the current \<open>tick\<close> of the world and advances the tick, so every
  run of the script against a real environment is the run of the model against some
  \<open>env\<close>.  What a request carries (URL, headers, body) is not represented: the oracle's
  answer does not depend on it.  Spinners and console output are not represented either,
  except for the status lines of \<^verbatim>\<open>loginAccountWithRetry\<close> (V4).
  Numbers are integers: the rounding of IEEE doubles is outside the model, except that the
  retry delay of V4, which is fractional, is a rational.
\<close>

subsection \<open>JavaScript values\<close>

datatype json = JUndefined | JNull | JBool bool | JNum int | JNaN | JStr string
  | JArr "json list" | JObj "(string \<times> json) list"

datatype error = Error string

type_synonym 'a result = "error + 'a"

fun message :: "error \<Rightarrow> string" where
  "message (Error m) = m"

text \<open>Decimal digits of a number, as a template literal prints them.\<close>

fun string_of_nat :: "nat \<Rightarrow> string" where
  "string_of_nat n = (if n < 10 then [''0123456789'' ! n]
     else string_of_nat (n div 10) @ [''0123456789'' ! (n mod 10)])"

declare string_of_nat.simps [simp del]

text \<open>\<^verbatim>\<open>String(v)\<close>: what a template literal or \<^verbatim>\<open>new Error(v)\<close> makes of a value.\<close>

fun to_string :: "json \<Rightarrow> string" and join_elems :: "json list \<Rightarrow> string" where
  "to_string JUndefined = ''undefined''"
| "to_string JNull = ''null''"
| "to_string (JBool b) = (if b then ''true'' else ''false'')"
| "to_string (JNum n) =
     (if n < 0 then ''-'' @ string_of_nat (nat (- n)) else string_of_nat (nat n))"
| "to_string JNaN = ''NaN''"
| "to_string (JStr s) = s"
| "to_string (JArr xs) = join_elems xs"
| "to_string (JObj kvs) = ''[object Object]''"
| "join_elems [] = []"
| "join_elems (x # xs) =
     (if x = JUndefined \<or> x = JNull then [] else to_string x) @
     (if xs = [] then [] else '','' @ join_elems xs)"

text \<open>Truthiness, as \<^verbatim>\<open>||\<close>, \<^verbatim>\<open>&&\<close> and \<^verbatim>\<open>if\<close> read a value.\<close>

fun truthy :: "json \<Rightarrow> bool" where
  "truthy JUndefined = False"
| "truthy JNull = False"
| "truthy (JBool b) = b"
| "truthy (JNum n) = (n \<noteq> 0)"
| "truthy JNaN = False"
| "truthy (JStr s) = (s \<noteq> [])"
| "truthy (JArr xs) = True"
| "truthy (JObj kvs) = True"

definition js_or :: "json \<Rightarrow> json \<Rightarrow> json" where
  "js_or a b = (if truthy a then a else b)"

text \<open>
  \<^verbatim>\<open>v.f\<close> throws a TypeError on \<^verbatim>\<open>undefined\<close> and \<^verbatim>\<open>null\<close>; \<^verbatim>\<open>v?.f\<close> is
  \<^verbatim>\<open>undefined\<close> there.  On a primitive or an array the fields the script reads do not
  exist, so the access gives \<^verbatim>\<open>undefined\<close>.
\<close>

fun get_field :: "json \<Rightarrow> string \<Rightarrow> json result" where
  "get_field JUndefined f =
     Inl (Error (''Cannot read properties of undefined (reading '' @ f @ '')''))"
| "get_field JNull f = Inl (Error (''Cannot read properties of null (reading '' @ f @ '')''))"
| "get_field (JObj kvs) f = Inr (case map_of kvs f of None \<Rightarrow> JUndefined | Some v \<Rightarrow> v)"
| "get_field v f = Inr JUndefined"

fun opt_field :: "json \<Rightarrow> string \<Rightarrow> json" where
  "opt_field (JObj kvs) f = (case map_of kvs f of None \<Rightarrow> JUndefined | Some v \<Rightarrow> v)"
| "opt_field v f = JUndefined"

text \<open>
  The operator \<^verbatim>\<open>+\<close>: objects and arrays become strings first; if either side is then a
  string the result is the concatenation, otherwise the sum of the two numbers.
\<close>

fun to_primitive :: "json \<Rightarrow> json" where
  "to_primitive (JArr xs) = JStr (to_string (JArr xs))"
| "to_primitive (JObj kvs) = JStr (to_string (JObj kvs))"
| "to_primitive v = v"

fun to_number :: "json \<Rightarrow> int option" where
  "to_number (JNum n) = Some n"
| "to_number (JBool b) = Some (if b then 1 else 0)"
| "to_number JNull = Some 0"
| "to_number v = None"

fun is_string :: "json \<Rightarrow> bool" where
  "is_string (JStr s) = True"
| "is_string v = False"

definition js_add :: "json \<Rightarrow> json \<Rightarrow> json" where
  "js_add a b =
     (let pa = to_primitive a; pb = to_primitive b in
      if is_string pa \<or> is_string pb then JStr (to_string pa @ to_string pb)
      else (case (to_number pa, to_number pb) of
              (Some x, Some y) \<Rightarrow> JNum (x + y)
            | _ \<Rightarrow> JNaN))"

subsection \<open>Strings\<close>

text \<open>
  \<^verbatim>\<open>String.prototype.trim\<close> on the ASCII white space (tab, line feed, vertical tab, form
  feed, carriage return, space); the white space beyond ASCII is not represented in a
  string of bytes.
\<close>

definition is_space :: "char \<Rightarrow> bool" where
  "is_space c = (c \<in> set [CHR 0x09, CHR 0x0A, CHR 0x0B, CHR 0x0C, CHR 0x0D, CHR '' ''])"

definition trim :: "string \<Rightarrow> string" where
  "trim s = rev (dropWhile is_space (rev (dropWhile is_space s)))"

text \<open>\<^verbatim>\<open>s.split(c)\<close> for a one-character separator: never empty, \<^verbatim>\<open>''.split(c)\<close> is \<^verbatim>\<open>['']\<close>.\<close>

fun split_on :: "char \<Rightarrow> string \<Rightarrow> string list" where
  "split_on c [] = [[]]"
| "split_on c (x # xs) =
     (if x = c then [] # split_on c xs
      else (case split_on c xs of [] \<Rightarrow> [[x]] | p # ps \<Rightarrow> (x # p) # ps))"

subsection \<open>The environment and the world\<close>

record response =
  status :: nat
  body :: "string + json"

text \<open>What the script tells the Telegram chat, with the values its message interpolates.\<close>

datatype notification =
    LoginAttempt nat string
  | LoginSuccessful string json
  | LoginFailed string nat string
  | Waiting int
  | StartingLoginProcess nat
  | ProcessingAccount nat nat
  | ProcessingCompleted nat nat

datatype event =
    Slept rat
  | Appended string string
  | Wrote string
  | SentMessage notification
  | SentPhoto string
  | Logged notification

record env =
  math_random :: "nat \<Rightarrow> rat"
  net :: "nat \<Rightarrow> string + response"
  fs :: "nat \<Rightarrow> string option"
  solver_api :: "nat \<Rightarrow> string + json"
  gemini_api :: "nat \<Rightarrow> string + string"
  stdin :: "nat \<Rightarrow> string"
  telegram_api :: "nat \<Rightarrow> string option"
  telegram_reply :: "nat \<Rightarrow> string option"
  agent_error :: "string \<Rightarrow> string option"

text \<open>
  The oracles: \<open>math_random\<close> is \<^verbatim>\<open>Math.random()\<close>; \<open>net\<close> is \<^verbatim>\<open>fetch\<close> (\<open>Inl\<close>: the
  promise rejects with that message); \<open>fs\<close> is a write to the file system (\<open>Some\<close>: it
  rejects); \<open>solver_api\<close> is the resolved value of \<^verbatim>\<open>solver.imageCaptcha\<close> or
  \<^verbatim>\<open>solver.solveImage\<close>; \<open>gemini_api\<close> is \<^verbatim>\<open>result.response.text()\<close> of a
  \<^verbatim>\<open>generateContent\<close> call; \<open>stdin\<close> is the line the operator types; \<open>telegram_api\<close> is
  a \<^verbatim>\<open>sendMessage\<close> or \<^verbatim>\<open>sendPhoto\<close> (\<open>Some\<close>: it rejects); \<open>telegram_reply\<close> is the
  text of the next chat message (\<open>None\<close>: none within \<^verbatim>\<open>CAPTCHA_TIMEOUT\<close>);
  \<open>agent_error\<close> tells whether the constructor of a proxy agent throws on a URI.

  The world: the tick, the trace of effects, and the script's module-level variables.
\<close>

record world =
  tick :: nat
  events :: "event list"
  model :: string
  useProxies :: bool
  proxyList :: "string list"
  currentProxyIndex :: nat
  telegramBot :: bool
  telegramChatId :: "int option"

definition MAX_RETRIES :: nat where
  "MAX_RETRIES = 3"

definition LOGIN_RETRIES :: nat where
  "LOGIN_RETRIES = 3"


definition is_ok :: "response \<Rightarrow> bool" where
  "is_ok r = (200 \<le> status r \<and> status r \<le> 299)"

definition fetch :: "env \<Rightarrow> world \<Rightarrow> response result \<times> world" where
  "fetch env s =
     ((case net env (tick s) of Inl msg \<Rightarrow> Inl (Error msg) | Inr r \<Rightarrow> Inr r),
      s\<lparr>tick := Suc (tick s)\<rparr>)"

definition response_json :: "response \<Rightarrow> json result" where
  "response_json r = (case body r of Inl msg \<Rightarrow> Inl (Error msg) | Inr v \<Rightarrow> Inr v)"

text \<open>\<^verbatim>\<open>await new Promise(resolve => setTimeout(resolve, ms))\<close>\<close>

definition setTimeout :: "rat \<Rightarrow> world \<Rightarrow> world" where
  "setTimeout ms s = s\<lparr>events := events s @ [Slept ms]\<rparr>"

definition appendFile :: "env \<Rightarrow> string \<Rightarrow> string \<Rightarrow> world \<Rightarrow> unit result \<times> world" where
  "appendFile env file line s =
     (case fs env (tick s) of
        Some msg \<Rightarrow> (Inl (Error msg), s\<lparr>tick := Suc (tick s)\<rparr>)
      | None \<Rightarrow> (Inr (), s\<lparr>tick := Suc (tick s), events := events s @ [Appended file line]\<rparr>))"

subsection \<open>generateAppId (the same in all four variants)\<close>

definition hexDigits :: string where
  "hexDigits = ''0123456789abcdef''"

text \<open>\<^verbatim>\<open>hexDigits[i]\<close>, appended to a string: out of range it appends \<^verbatim>\<open>undefined\<close>.\<close>

definition hex_at :: "int \<Rightarrow> string" where
  "hex_at i = (if 0 \<le> i \<and> i < 16 then [hexDigits ! nat i] else ''undefined'')"

function generateAppId_loop :: "env \<Rightarrow> nat \<Rightarrow> string \<Rightarrow> world \<Rightarrow> string \<times> world" where
  "generateAppId_loop env i appId s =
     (if i < 22 then
        generateAppId_loop env (i + 1)
          (appId @ hex_at \<lfloor>math_random env (tick s) * 16\<rfloor>) (s\<lparr>tick := Suc (tick s)\<rparr>)
      else (appId, s))"
  by pat_completeness auto
termination
  by (relation "measure (\<lambda>(env, i, appId, s). 22 - i)") auto

declare generateAppId_loop.simps [simp del]

definition generateAppId :: "env \<Rightarrow> world \<Rightarrow> string \<times> world" where
  "generateAppId env s = generateAppId_loop env 0 ''67'' s"

subsection \<open>getProxyAgent (V3)\<close>

datatype agent = SocksProxyAgent string | HttpsProxyAgent string

text \<open>
  \<^verbatim>\<open>proxyList[currentProxyIndex]\<close> is \<^verbatim>\<open>undefined\<close> out of range and \<^verbatim>\<open>startsWith\<close> then
  throws; the constructors throw on a URI they cannot parse.  The cursor has moved by
  then.
\<close>

definition new_agent :: "env \<Rightarrow> string \<Rightarrow> agent option result" where
  "new_agent env proxy =
     (case agent_error env proxy of
        Some msg \<Rightarrow> Inl (Error msg)
      | None \<Rightarrow>
          if take 5 proxy = ''socks'' then Inr (Some (SocksProxyAgent proxy))
          else Inr (Some (HttpsProxyAgent proxy)))"

definition getProxyAgent :: "env \<Rightarrow> world \<Rightarrow> agent option result \<times> world" where
  "getProxyAgent env s =
     (if \<not> useProxies s \<or> length (proxyList s) = 0 then (Inr None, s)
      else
        let i = currentProxyIndex s;
            s' = s\<lparr>currentProxyIndex := (currentProxyIndex s + 1) mod length (proxyList s)\<rparr>
        in if length (proxyList s) \<le> i then
             (Inl (Error ''Cannot read properties of undefined (reading startsWith)''), s')
           else (new_agent env (proxyList s ! i), s'))"

text \<open>\<open>n\<close> calls of \<^verbatim>\<open>getProxyAgent\<close> one after the other, and what each returned.\<close>

fun getProxyAgent_times :: "env \<Rightarrow> nat \<Rightarrow> world \<Rightarrow> agent option result list \<times> world" where
  "getProxyAgent_times env 0 s = ([], s)"
| "getProxyAgent_times env (Suc n) s =
     (case getProxyAgent env s of
        (r, s1) \<Rightarrow> (case getProxyAgent_times env n s1 of (rs, s2) \<Rightarrow> (r # rs, s2)))"

subsection \<open>V3: the sub-requests, each in a loop of MAX_RETRIES attempts\<close>

text \<open>
  Each function is its \<^verbatim>\<open>for (let attempt = 1; attempt <= MAX_RETRIES; attempt++)\<close> loop;
  \<open>_try\<close> is the \<^verbatim>\<open>try\<close> block of one pass and the loop function is the pass from
  \<open>attempt\<close> on, with the \<^verbatim>\<open>catch\<close> block written out.  A loop left without a
  \<^verbatim>\<open>return\<close> yields \<^verbatim>\<open>undefined\<close>.
\<close>

definition getPuzzleId_v3_try :: "env \<Rightarrow> string \<Rightarrow> world \<Rightarrow> json result \<times> world" where
  "getPuzzleId_v3_try env appId s =
     (case getProxyAgent env s of
        (Inl e, s1) \<Rightarrow> (Inl e, s1)
      | (Inr agent, s1) \<Rightarrow>
          (case fetch env s1 of
             (Inl e, s2) \<Rightarrow> (Inl e, s2)
           | (Inr response, s2) \<Rightarrow>
               if \<not> is_ok response then
                 (Inl (Error (''HTTP error! status: '' @ string_of_nat (status response))), s2)
               else
                 (case response_json response of
                    Inl e \<Rightarrow> (Inl e, s2)
                  | Inr data \<Rightarrow> (get_field data ''puzzle_id'', s2))))"

function getPuzzleId_v3_loop :: "env \<Rightarrow> string \<Rightarrow> nat \<Rightarrow> world \<Rightarrow> json result \<times> world" where
  "getPuzzleId_v3_loop env appId attempt s =
     (if attempt \<le> MAX_RETRIES then
        (case getPuzzleId_v3_try env appId s of
           (Inr v, s1) \<Rightarrow> (Inr v, s1)
         | (Inl e, s1) \<Rightarrow>
             if attempt = MAX_RETRIES then
               (Inl (Error (''Failed to get puzzle ID after '' @ string_of_nat MAX_RETRIES
                            @ '' attempts: '' @ message e)), s1)
             else getPuzzleId_v3_loop env appId (attempt + 1)
                    (setTimeout (1000 * of_nat attempt) s1))
      else (Inr JUndefined, s))"
  by pat_completeness auto
termination
  by (relation "measure (\<lambda>(env, appId, attempt, s). MAX_RETRIES + 1 - attempt)") auto

declare getPuzzleId_v3_loop.simps [simp del]

definition getPuzzleId_v3 :: "env \<Rightarrow> string \<Rightarrow> world \<Rightarrow> json result \<times> world" where
  "getPuzzleId_v3 env appId s = getPuzzleId_v3_loop env appId 1 s"

definition getPuzzleImage_v3_try :: "env \<Rightarrow> json \<Rightarrow> string \<Rightarrow> world \<Rightarrow> json result \<times> world" where
  "getPuzzleImage_v3_try env puzzleId appId s =
     (case getProxyAgent env s of
        (Inl e, s1) \<Rightarrow> (Inl e, s1)
      | (Inr agent, s1) \<Rightarrow>
          (case fetch env s1 of
             (Inl e, s2) \<Rightarrow> (Inl e, s2)
           | (Inr response, s2) \<Rightarrow>
               if \<not> is_ok response then
                 (Inl (Error (''HTTP error! status: '' @ string_of_nat (status response))), s2)
               else
                 (case response_json response of
                    Inl e \<Rightarrow> (Inl e, s2)
                  | Inr data \<Rightarrow> (get_field data ''imgBase64'', s2))))"

function getPuzzleImage_v3_loop ::
  "env \<Rightarrow> json \<Rightarrow> string \<Rightarrow> nat \<Rightarrow> world \<Rightarrow> json result \<times> world" where
  "getPuzzleImage_v3_loop env puzzleId appId attempt s =
     (if attempt \<le> MAX_RETRIES then
        (case getPuzzleImage_v3_try env puzzleId appId s of
           (Inr v, s1) \<Rightarrow> (Inr v, s1)
         | (Inl e, s1) \<Rightarrow>
             if attempt = MAX_RETRIES then
               (Inl (Error (''Failed to get puzzle image after '' @ string_of_nat MAX_RETRIES
                            @ '' attempts: '' @ message e)), s1)
             else getPuzzleImage_v3_loop env puzzleId appId (attempt + 1)
                    (setTimeout (1000 * of_nat attempt) s1))
      else (Inr JUndefined, s))"
  by pat_completeness auto
termination
  by (relation "measure (\<lambda>(env, puzzleId, appId, attempt, s). MAX_RETRIES + 1 - attempt)") auto

declare getPuzzleImage_v3_loop.simps [simp del]

definition getPuzzleImage_v3 :: "env \<Rightarrow> json \<Rightarrow> string \<Rightarrow> world \<Rightarrow> json result \<times> world" where
  "getPuzzleImage_v3 env puzzleId appId s = getPuzzleImage_v3_loop env puzzleId appId 1 s"

text \<open>A call of the solving service: \<^verbatim>\<open>solver.imageCaptcha\<close> or \<^verbatim>\<open>solver.solveImage\<close>.\<close>

definition solver_call :: "env \<Rightarrow> world \<Rightarrow> json result \<times> world" where
  "solver_call env s =
     ((case solver_api env (tick s) of Inl msg \<Rightarrow> Inl (Error msg) | Inr v \<Rightarrow> Inr v),
      s\<lparr>tick := Suc (tick s)\<rparr>)"

definition processCaptcha_v3_try :: "env \<Rightarrow> json \<Rightarrow> world \<Rightarrow> json result \<times> world" where
  "processCaptcha_v3_try env base64Image s =
     (if model s = ''2captcha'' then
        (case solver_call env s of
           (Inl e, s1) \<Rightarrow> (Inl e, s1)
         | (Inr result, s1) \<Rightarrow> (get_field result ''data'', s1))
      else
        (case solver_call env s of
           (Inl e, s1) \<Rightarrow> (Inl e, s1)
         | (Inr result, s1) \<Rightarrow> (Inr result, s1)))"

function processCaptcha_v3_loop :: "env \<Rightarrow> json \<Rightarrow> nat \<Rightarrow> world \<Rightarrow> json result \<times> world" where
  "processCaptcha_v3_loop env base64Image attempt s =
     (if attempt \<le> MAX_RETRIES then
        (case processCaptcha_v3_try env base64Image s of
           (Inr v, s1) \<Rightarrow> (Inr v, s1)
         | (Inl e, s1) \<Rightarrow>
             if attempt = MAX_RETRIES then
               (Inl (Error (''Failed to solve captcha after '' @ string_of_nat MAX_RETRIES
                            @ '' attempts: '' @ message e)), s1)
             else processCaptcha_v3_loop env base64Image (attempt + 1)
                    (setTimeout (2000 * of_nat attempt) s1))
      else (Inr JUndefined, s))"
  by pat_completeness auto
termination
  by (relation "measure (\<lambda>(env, base64Image, attempt, s). MAX_RETRIES + 1 - attempt)") auto

declare processCaptcha_v3_loop.simps [simp del]

definition processCaptcha_v3 :: "env \<Rightarrow> json \<Rightarrow> world \<Rightarrow> json result \<times> world" where
  "processCaptcha_v3 env base64Image s = processCaptcha_v3_loop env base64Image 1 s"

text \<open>
  The sum of the six fields, \<^verbatim>\<open>(referralPoint?.commission || 0) + ... \<close>, and what
  \<^verbatim>\<open>getUserPoints\<close> does with the parsed response \<^verbatim>\<open>data\<close>; the text is the same in
  all four variants.  Destructuring \<^verbatim>\<open>data.data\<close> throws when it is \<^verbatim>\<open>undefined\<close> or
  \<^verbatim>\<open>null\<close>.
\<close>

definition totalPoints :: "json \<Rightarrow> json \<Rightarrow> json" where
  "totalPoints referralPoint rewardPoint =
     js_add (js_add (js_add (js_add (js_add
       (js_or (opt_field referralPoint ''commission'') (JNum 0))
       (js_or (opt_field rewardPoint ''points'') (JNum 0)))
       (js_or (opt_field rewardPoint ''registerpoints'') (JNum 0)))
       (js_or (opt_field rewardPoint ''twitter_x_id_points'') (JNum 0)))
       (js_or (opt_field rewardPoint ''discordid_points'') (JNum 0)))
       (js_or (opt_field rewardPoint ''telegramid_points'') (JNum 0))"

definition points_of_data :: "json \<Rightarrow> json result" where
  "points_of_data data =
     (case get_field data ''success'' of
        Inl e \<Rightarrow> Inl e
      | Inr success \<Rightarrow>
          if truthy success then
            (case get_field data ''data'' of
               Inl e \<Rightarrow> Inl e
             | Inr d \<Rightarrow>
                 (case get_field d ''referralPoint'' of
                    Inl e \<Rightarrow> Inl e
                  | Inr referralPoint \<Rightarrow>
                      (case get_field d ''rewardPoint'' of
                         Inl e \<Rightarrow> Inl e
                       | Inr rewardPoint \<Rightarrow> Inr (totalPoints referralPoint rewardPoint))))
          else Inr (JNum 0))"

definition getUserPoints_v3_try :: "env \<Rightarrow> json \<Rightarrow> string \<Rightarrow> world \<Rightarrow> json result \<times> world" where
  "getUserPoints_v3_try env token appId s =
     (case getProxyAgent env s of
        (Inl e, s1) \<Rightarrow> (Inl e, s1)
      | (Inr agent, s1) \<Rightarrow>
          (case fetch env s1 of
             (Inl e, s2) \<Rightarrow> (Inl e, s2)
           | (Inr response, s2) \<Rightarrow>
               if \<not> is_ok response then
                 (Inl (Error (''HTTP error! status: '' @ string_of_nat (status response))), s2)
               else
                 (case response_json response of
                    Inl e \<Rightarrow> (Inl e, s2)
                  | Inr data \<Rightarrow> (points_of_data data, s2))))"

function getUserPoints_v3_loop :: "env \<Rightarrow> json \<Rightarrow> string \<Rightarrow> nat \<Rightarrow> world \<Rightarrow> json \<times> world" where
  "getUserPoints_v3_loop env token appId attempt s =
     (if attempt \<le> MAX_RETRIES then
        (case getUserPoints_v3_try env token appId s of
           (Inr v, s1) \<Rightarrow> (v, s1)
         | (Inl e, s1) \<Rightarrow>
             if attempt = MAX_RETRIES then (JNum 0, s1)
             else getUserPoints_v3_loop env token appId (attempt + 1)
                    (setTimeout (1000 * of_nat attempt) s1))
      else (JUndefined, s))"
  by pat_completeness auto
termination
  by (relation "measure (\<lambda>(env, token, appId, attempt, s). MAX_RETRIES + 1 - attempt)") auto

declare getUserPoints_v3_loop.simps [simp del]

definition getUserPoints_v3 :: "env \<Rightarrow> json \<Rightarrow> string \<Rightarrow> world \<Rightarrow> json \<times> world" where
  "getUserPoints_v3 env token appId s = getUserPoints_v3_loop env token appId 1 s"

subsection \<open>V3: loginAccount, a loop of LOGIN_RETRIES attempts\<close>

text \<open>
  \<open>loginAccount_v3_try\<close> is the \<^verbatim>\<open>try\<close> block: \<open>Inr v\<close> is \<^verbatim>\<open>return v\<close>, \<open>Inl e\<close> is an
  exception on its way to the \<^verbatim>\<open>catch\<close> block.  \<open>loginAccount_v3_token\<close> is the block
  as far as \<^verbatim>\<open>const token = loginResult.data.token\<close>.
\<close>

definition loginAccount_v3_token ::
  "env \<Rightarrow> string \<Rightarrow> string \<Rightarrow> string \<Rightarrow> world \<Rightarrow> json result \<times> world" where
  "loginAccount_v3_token env email password appId s =
     (case getPuzzleId_v3 env appId s of
        (Inl e, s1) \<Rightarrow> (Inl e, s1)
      | (Inr puzzleId, s1) \<Rightarrow>
     (case getPuzzleImage_v3 env puzzleId appId s1 of
        (Inl e, s2) \<Rightarrow> (Inl e, s2)
      | (Inr imageBase64, s2) \<Rightarrow>
     (case processCaptcha_v3 env imageBase64 s2 of
        (Inl e, s3) \<Rightarrow> (Inl e, s3)
      | (Inr captchaText, s3) \<Rightarrow>
     (case getProxyAgent env s3 of
        (Inl e, s4) \<Rightarrow> (Inl e, s4)
      | (Inr agent, s4) \<Rightarrow>
     (case fetch env s4 of
        (Inl e, s5) \<Rightarrow> (Inl e, s5)
      | (Inr loginResponse, s5) \<Rightarrow>
     (case response_json loginResponse of
        Inl e \<Rightarrow> (Inl e, s5)
      | Inr loginResult \<Rightarrow>
          if is_ok loginResponse then
            (case get_field loginResult ''data'' of
               Inl e \<Rightarrow> (Inl e, s5)
             | Inr d \<Rightarrow> (get_field d ''token'', s5))
          else
            (case get_field loginResult ''message'' of
               Inl e \<Rightarrow> (Inl e, s5)
             | Inr m \<Rightarrow> (Inl (Error (to_string (js_or m (JStr ''Unknown error'')))), s5))))))))"

definition loginAccount_v3_try ::
  "env \<Rightarrow> string \<Rightarrow> string \<Rightarrow> string \<Rightarrow> world \<Rightarrow> json result \<times> world" where
  "loginAccount_v3_try env email password appId s =
     (case loginAccount_v3_token env email password appId s of
        (Inl e, s5) \<Rightarrow> (Inl e, s5)
      | (Inr token, s5) \<Rightarrow>
     (case getUserPoints_v3 env token appId s5 of
        (points, s6) \<Rightarrow>
     (case appendFile env ''successful_logins.txt''
             (email @ '':'' @ password @ '':'' @ to_string token @ '':''
              @ to_string points @ [CHR 0x0A]) s6 of
        (Inl e, s7) \<Rightarrow> (Inl e, s7)
      | (Inr u, s7) \<Rightarrow> (Inr (JBool True), s7))))"

function loginAccount_v3_loop ::
  "env \<Rightarrow> string \<Rightarrow> string \<Rightarrow> nat \<Rightarrow> world \<Rightarrow> json result \<times> world" where
  "loginAccount_v3_loop env email password loginAttempt s =
     (if loginAttempt \<le> LOGIN_RETRIES then
        (case generateAppId env s of
           (appId, s0) \<Rightarrow>
        (case loginAccount_v3_try env email password appId s0 of
           (Inr v, s1) \<Rightarrow> (Inr v, s1)
         | (Inl e, s1) \<Rightarrow>
             if loginAttempt = LOGIN_RETRIES then
               (case appendFile env ''failed_logins.txt''
                       (email @ '':'' @ password @ [CHR 0x0A]) s1 of
                  (Inl e', s2) \<Rightarrow> (Inl e', s2)
                | (Inr u, s2) \<Rightarrow> (Inr (JBool False), s2))
             else loginAccount_v3_loop env email password (loginAttempt + 1)
                    (setTimeout (5000 * of_nat loginAttempt) s1)))
      else (Inr JUndefined, s))"
  by pat_completeness auto
termination
  by (relation "measure (\<lambda>(env, email, password, loginAttempt, s). LOGIN_RETRIES + 1 - loginAttempt)")
    auto

declare loginAccount_v3_loop.simps [simp del]

definition loginAccount_v3 :: "env \<Rightarrow> string \<Rightarrow> string \<Rightarrow> world \<Rightarrow> json result \<times> world" where
  "loginAccount_v3 env email password s = loginAccount_v3_loop env email password 1 s"

subsection \<open>V1: one attempt per account\<close>

text \<open>
  V1 retries the two puzzle requests as V3 does, without a proxy, and rethrows the last
  error as it is; the captcha and the points query are tried once.
\<close>

definition getPuzzleId_v1_try :: "env \<Rightarrow> string \<Rightarrow> world \<Rightarrow> json result \<times> world" where
  "getPuzzleId_v1_try env appId s =
     (case fetch env s of
        (Inl e, s1) \<Rightarrow> (Inl e, s1)
      | (Inr response, s1) \<Rightarrow>
          if \<not> is_ok response then
            (Inl (Error (''HTTP error! status: '' @ string_of_nat (status response))), s1)
          else
            (case response_json response of
               Inl e \<Rightarrow> (Inl e, s1)
             | Inr data \<Rightarrow> (get_field data ''puzzle_id'', s1)))"

function getPuzzleId_v1_loop :: "env \<Rightarrow> string \<Rightarrow> nat \<Rightarrow> world \<Rightarrow> json result \<times> world" where
  "getPuzzleId_v1_loop env appId attempt s =
     (if attempt \<le> MAX_RETRIES then
        (case getPuzzleId_v1_try env appId s of
           (Inr v, s1) \<Rightarrow> (Inr v, s1)
         | (Inl e, s1) \<Rightarrow>
             if attempt = MAX_RETRIES then (Inl e, s1)
             else getPuzzleId_v1_loop env appId (attempt + 1)
                    (setTimeout (1000 * of_nat attempt) s1))
      else (Inr JUndefined, s))"
  by pat_completeness auto
termination
  by (relation "measure (\<lambda>(env, appId, attempt, s). MAX_RETRIES + 1 - attempt)") auto

declare getPuzzleId_v1_loop.simps [simp del]

definition getPuzzleId_v1 :: "env \<Rightarrow> string \<Rightarrow> world \<Rightarrow> json result \<times> world" where
  "getPuzzleId_v1 env appId s = getPuzzleId_v1_loop env appId 1 s"

definition getPuzzleImage_v1_try :: "env \<Rightarrow> json \<Rightarrow> string \<Rightarrow> world \<Rightarrow> json result \<times> world" where
  "getPuzzleImage_v1_try env puzzleId appId s =
     (case fetch env s of
        (Inl e, s1) \<Rightarrow> (Inl e, s1)
      | (Inr response, s1) \<Rightarrow>
          if \<not> is_ok response then
            (Inl (Error (''HTTP error! status: '' @ string_of_nat (status response))), s1)
          else
            (case response_json response of
               Inl e \<Rightarrow> (Inl e, s1)
             | Inr data \<Rightarrow> (get_field data ''imgBase64'', s1)))"

function getPuzzleImage_v1_loop ::
  "env \<Rightarrow> json \<Rightarrow> string \<Rightarrow> nat \<Rightarrow> world \<Rightarrow> json result \<times> world" where
  "getPuzzleImage_v1_loop env puzzleId appId attempt s =
     (if attempt \<le> MAX_RETRIES then
        (case getPuzzleImage_v1_try env puzzleId appId s of
           (Inr v, s1) \<Rightarrow> (Inr v, s1)
         | (Inl e, s1) \<Rightarrow>
             if attempt = MAX_RETRIES then (Inl e, s1)
             else getPuzzleImage_v1_loop env puzzleId appId (attempt + 1)
                    (setTimeout (1000 * of_nat attempt) s1))
      else (Inr JUndefined, s))"
  by pat_completeness auto
termination
  by (relation "measure (\<lambda>(env, puzzleId, appId, attempt, s). MAX_RETRIES + 1 - attempt)") auto

declare getPuzzleImage_v1_loop.simps [simp del]

definition getPuzzleImage_v1 :: "env \<Rightarrow> json \<Rightarrow> string \<Rightarrow> world \<Rightarrow> json result \<times> world" where
  "getPuzzleImage_v1 env puzzleId appId s = getPuzzleImage_v1_loop env puzzleId appId 1 s"

text \<open>Writing \<^verbatim>\<open>temp_captcha.png\<close> (through \<^verbatim>\<open>sharp\<close> in V1); the error is rethrown.\<close>

definition saveCaptchaImage_v1 :: "env \<Rightarrow> json \<Rightarrow> world \<Rightarrow> unit result \<times> world" where
  "saveCaptchaImage_v1 env base64Image s =
     (case fs env (tick s) of
        Some msg \<Rightarrow> (Inl (Error msg), s\<lparr>tick := Suc (tick s)\<rparr>)
      | None \<Rightarrow>
          (Inr (), s\<lparr>tick := Suc (tick s), events := events s @ [Wrote ''temp_captcha.png'']\<rparr>))"

text \<open>\<^verbatim>\<open>await question(...)\<close>: the line the operator types, as readline hands it over.\<close>

definition question :: "env \<Rightarrow> world \<Rightarrow> string \<times> world" where
  "question env s = (stdin env (tick s), s\<lparr>tick := Suc (tick s)\<rparr>)"

definition processCaptcha_v1 :: "env \<Rightarrow> json \<Rightarrow> world \<Rightarrow> json result \<times> world" where
  "processCaptcha_v1 env base64Image s =
     (if model s = ''manual'' then
        (case saveCaptchaImage_v1 env base64Image s of
           (Inl e, s1) \<Rightarrow> (Inl e, s1)
         | (Inr u, s1) \<Rightarrow>
             (case question env s1 of (captchaText, s2) \<Rightarrow> (Inr (JStr captchaText), s2)))
      else if model s = ''2captcha'' then
        (case solver_call env s of
           (Inl e, s1) \<Rightarrow> (Inl e, s1)
         | (Inr result, s1) \<Rightarrow> (get_field result ''data'', s1))
      else
        (case solver_call env s of
           (Inl e, s1) \<Rightarrow> (Inl e, s1)
         | (Inr result, s1) \<Rightarrow> (Inr result, s1)))"

definition getUserPoints_v1_try :: "env \<Rightarrow> json \<Rightarrow> string \<Rightarrow> world \<Rightarrow> json result \<times> world" where
  "getUserPoints_v1_try env token appId s =
     (case fetch env s of
        (Inl e, s1) \<Rightarrow> (Inl e, s1)
      | (Inr response, s1) \<Rightarrow>
          if \<not> is_ok response then
            (Inl (Error (''HTTP error! status: '' @ string_of_nat (status response))), s1)
          else
            (case response_json response of
               Inl e \<Rightarrow> (Inl e, s1)
             | Inr data \<Rightarrow> (points_of_data data, s1)))"

definition getUserPoints_v1 :: "env \<Rightarrow> json \<Rightarrow> string \<Rightarrow> world \<Rightarrow> json \<times> world" where
  "getUserPoints_v1 env token appId s =
     (case getUserPoints_v1_try env token appId s of
        (Inr v, s1) \<Rightarrow> (v, s1)
      | (Inl e, s1) \<Rightarrow> (JNum 0, s1))"

definition loginAccount_v1_token ::
  "env \<Rightarrow> string \<Rightarrow> string \<Rightarrow> string \<Rightarrow> world \<Rightarrow> json result \<times> world" where
  "loginAccount_v1_token env email password appId s =
     (case getPuzzleId_v1 env appId s of
        (Inl e, s1) \<Rightarrow> (Inl e, s1)
      | (Inr puzzleId, s1) \<Rightarrow>
     (case getPuzzleImage_v1 env puzzleId appId s1 of
        (Inl e, s2) \<Rightarrow> (Inl e, s2)
      | (Inr imageBase64, s2) \<Rightarrow>
     (case processCaptcha_v1 env imageBase64 s2 of
        (Inl e, s3) \<Rightarrow> (Inl e, s3)
      | (Inr captchaText, s3) \<Rightarrow>
     (case fetch env s3 of
        (Inl e, s4) \<Rightarrow> (Inl e, s4)
      | (Inr loginResponse, s4) \<Rightarrow>
     (case response_json loginResponse of
        Inl e \<Rightarrow> (Inl e, s4)
      | Inr loginResult \<Rightarrow>
          if is_ok loginResponse then
            (case get_field loginResult ''data'' of
               Inl e \<Rightarrow> (Inl e, s4)
             | Inr d \<Rightarrow> (get_field d ''token'', s4))
          else
            (case get_field loginResult ''message'' of
               Inl e \<Rightarrow> (Inl e, s4)
             | Inr m \<Rightarrow> (Inl (Error (to_string (js_or m (JStr ''Unknown error'')))), s4)))))))"

definition loginAccount_v1_try ::
  "env \<Rightarrow> string \<Rightarrow> string \<Rightarrow> string \<Rightarrow> world \<Rightarrow> json result \<times> world" where
  "loginAccount_v1_try env email password appId s =
     (case loginAccount_v1_token env email password appId s of
        (Inl e, s4) \<Rightarrow> (Inl e, s4)
      | (Inr token, s4) \<Rightarrow>
     (case getUserPoints_v1 env token appId s4 of
        (points, s5) \<Rightarrow>
     (case appendFile env ''successful_logins.txt''
             (email @ '':'' @ to_string token @ [CHR 0x0A]) s5 of
        (Inl e, s6) \<Rightarrow> (Inl e, s6)
      | (Inr u, s6) \<Rightarrow> (Inr (JBool True), s6))))"

definition loginAccount_v1 :: "env \<Rightarrow> string \<Rightarrow> string \<Rightarrow> world \<Rightarrow> json result \<times> world" where
  "loginAccount_v1 env email password s =
     (case generateAppId env s of
        (appId, s0) \<Rightarrow>
     (case loginAccount_v1_try env email password appId s0 of
        (Inr v, s1) \<Rightarrow> (Inr v, s1)
      | (Inl e, s1) \<Rightarrow>
          (case appendFile env ''failed_logins.txt'' (email @ '':'' @ password @ [CHR 0x0A]) s1 of
             (Inl e', s2) \<Rightarrow> (Inl e', s2)
           | (Inr u, s2) \<Rightarrow> (Inr (JBool False), s2))))"

subsection \<open>readCredentials (the same in all four variants) and the loop of main (V1)\<close>

record credential =
  cred_email :: string
  cred_password :: string

text \<open>
  \<^verbatim>\<open>const [email, password] = line.split(':')\<close> and the object built from the two;
  \<^verbatim>\<open>password.trim()\<close> throws when the split has one part only.
\<close>

definition credential_of_line :: "string \<Rightarrow> credential result" where
  "credential_of_line line =
     (case split_on CHR '':'' line of
        email # password # rest \<Rightarrow> Inr \<lparr>cred_email = trim email, cred_password = trim password\<rparr>
      | parts \<Rightarrow> Inl (Error ''Cannot read properties of undefined (reading trim)''))"

fun map_result :: "('a \<Rightarrow> 'b result) \<Rightarrow> 'a list \<Rightarrow> 'b list result" where
  "map_result f [] = Inr []"
| "map_result f (x # xs) =
     (case f x of
        Inl e \<Rightarrow> Inl e
      | Inr y \<Rightarrow> (case map_result f xs of Inl e \<Rightarrow> Inl e | Inr ys \<Rightarrow> Inr (y # ys)))"

text \<open>
  \<open>file\<close> is what \<^verbatim>\<open>fs.readFile(filePath, 'utf8')\<close> gives (\<open>Inl\<close>: it rejects).  Any
  exception in the \<^verbatim>\<open>try\<close> block makes the result the empty list.
\<close>

definition readCredentials :: "string result \<Rightarrow> credential list" where
  "readCredentials file =
     (case file of
        Inl e \<Rightarrow> []
      | Inr content \<Rightarrow>
          (case map_result credential_of_line
                  (filter (\<lambda>line. CHR '':'' \<in> set line) (map trim (split_on CHR 0x0A content))) of
             Inl e \<Rightarrow> []
           | Inr credentials \<Rightarrow> credentials))"



subsection \<open>V4: the Telegram observer, four solvers, retrying without bound\<close>

text \<open>
  \<^verbatim>\<open>sendTelegramStatus\<close> calls \<^verbatim>\<open>telegramBot.sendMessage\<close> when the bot and the chat id
  are set; \<open>SentMessage\<close> records the call.  A rejection of the call is caught and
  logged, so the answer of the oracle at that tick changes nothing.
\<close>

definition sendTelegramStatus :: "env \<Rightarrow> notification \<Rightarrow> world \<Rightarrow> world" where
  "sendTelegramStatus env msg s =
     (if telegramBot s \<and> telegramChatId s \<noteq> None then
        s\<lparr>tick := Suc (tick s), events := events s @ [SentMessage msg]\<rparr>
      else s)"

text \<open>
  \<^verbatim>\<open>console.log\<close> of a status line of \<^verbatim>\<open>loginAccountWithRetry\<close>: \<open>Logged\<close> holds the
  values the line interpolates (\<open>LoginSuccessful\<close> stands for the two lines
  \<^verbatim>\<open>Login successful for ...\<close> and \<^verbatim>\<open>Points: ...\<close>).
\<close>

definition console_log :: "notification \<Rightarrow> world \<Rightarrow> world" where
  "console_log msg s = s\<lparr>events := events s @ [Logged msg]\<rparr>"

definition getPuzzleId_v4_try :: "env \<Rightarrow> string \<Rightarrow> world \<Rightarrow> json result \<times> world" where
  "getPuzzleId_v4_try env appId s =
     (case fetch env s of
        (Inl e, s1) \<Rightarrow> (Inl e, s1)
      | (Inr response, s1) \<Rightarrow>
          if \<not> is_ok response then
            (Inl (Error (''HTTP error! status: '' @ string_of_nat (status response))), s1)
          else
            (case response_json response of
               Inl e \<Rightarrow> (Inl e, s1)
             | Inr data \<Rightarrow> (get_field data ''puzzle_id'', s1)))"

function getPuzzleId_v4_loop :: "env \<Rightarrow> string \<Rightarrow> nat \<Rightarrow> world \<Rightarrow> json result \<times> world" where
  "getPuzzleId_v4_loop env appId attempt s =
     (if attempt \<le> MAX_RETRIES then
        (case getPuzzleId_v4_try env appId s of
           (Inr v, s1) \<Rightarrow> (Inr v, s1)
         | (Inl e, s1) \<Rightarrow>
             if attempt = MAX_RETRIES then
               (Inl (Error (''Failed to get puzzle ID after '' @ string_of_nat MAX_RETRIES
                            @ '' attempts: '' @ message e)), s1)
             else getPuzzleId_v4_loop env appId (attempt + 1)
                    (setTimeout (1000 * of_nat attempt) s1))
      else (Inr JUndefined, s))"
  by pat_completeness auto
termination
  by (relation "measure (\<lambda>(env, appId, attempt, s). MAX_RETRIES + 1 - attempt)") auto

declare getPuzzleId_v4_loop.simps [simp del]

definition getPuzzleId_v4 :: "env \<Rightarrow> string \<Rightarrow> world \<Rightarrow> json result \<times> world" where
  "getPuzzleId_v4 env appId s = getPuzzleId_v4_loop env appId 1 s"

definition getPuzzleImage_v4_try :: "env \<Rightarrow> json \<Rightarrow> string \<Rightarrow> world \<Rightarrow> json result \<times> world" where
  "getPuzzleImage_v4_try env puzzleId appId s =
     (case fetch env s of
        (Inl e, s1) \<Rightarrow> (Inl e, s1)
      | (Inr response, s1) \<Rightarrow>
          if \<not> is_ok response then
            (Inl (Error (''HTTP error! status: '' @ string_of_nat (status response))), s1)
          else
            (case response_json response of
               Inl e \<Rightarrow> (Inl e, s1)
             | Inr data \<Rightarrow> (get_field data ''imgBase64'', s1)))"

function getPuzzleImage_v4_loop ::
  "env \<Rightarrow> json \<Rightarrow> string \<Rightarrow> nat \<Rightarrow> world \<Rightarrow> json result \<times> world" where
  "getPuzzleImage_v4_loop env puzzleId appId attempt s =
     (if attempt \<le> MAX_RETRIES then
        (case getPuzzleImage_v4_try env puzzleId appId s of
           (Inr v, s1) \<Rightarrow> (Inr v, s1)
         | (Inl e, s1) \<Rightarrow>
             if attempt = MAX_RETRIES then
               (Inl (Error (''Failed to get puzzle image after '' @ string_of_nat MAX_RETRIES
                            @ '' attempts: '' @ message e)), s1)
             else getPuzzleImage_v4_loop env puzzleId appId (attempt + 1)
                    (setTimeout (1000 * of_nat attempt) s1))
      else (Inr JUndefined, s))"
  by pat_completeness auto
termination
  by (relation "measure (\<lambda>(env, puzzleId, appId, attempt, s). MAX_RETRIES + 1 - attempt)") auto

declare getPuzzleImage_v4_loop.simps [simp del]

definition getPuzzleImage_v4 :: "env \<Rightarrow> json \<Rightarrow> string \<Rightarrow> world \<Rightarrow> json result \<times> world" where
  "getPuzzleImage_v4 env puzzleId appId s = getPuzzleImage_v4_loop env puzzleId appId 1 s"

definition saveCaptchaImage_v4 :: "env \<Rightarrow> json \<Rightarrow> world \<Rightarrow> unit result \<times> world" where
  "saveCaptchaImage_v4 env base64Image s =
     (case fs env (tick s) of
        Some msg \<Rightarrow>
          (Inl (Error (''Failed to save captcha image: '' @ msg)), s\<lparr>tick := Suc (tick s)\<rparr>)
      | None \<Rightarrow>
          (Inr (), s\<lparr>tick := Suc (tick s), events := events s @ [Wrote ''temp_captcha.png'']\<rparr>))"

text \<open>\<^verbatim>\<open>await telegramBot.sendPhoto(telegramChatId, 'temp_captcha.png', ...)\<close>\<close>

definition sendPhoto :: "env \<Rightarrow> world \<Rightarrow> unit result \<times> world" where
  "sendPhoto env s =
     (case telegram_api env (tick s) of
        Some msg \<Rightarrow> (Inl (Error msg), s\<lparr>tick := Suc (tick s)\<rparr>)
      | None \<Rightarrow>
          (Inr (), s\<lparr>tick := Suc (tick s), events := events s @ [SentPhoto ''temp_captcha.png'']\<rparr>))"

text \<open>
  The promise that waits for the operator's reply: it resolves with \<^verbatim>\<open>msg.text.trim()\<close>
  or rejects after \<^verbatim>\<open>CAPTCHA_TIMEOUT\<close>.  A reply without text is not represented.
\<close>

definition await_reply :: "env \<Rightarrow> world \<Rightarrow> string result \<times> world" where
  "await_reply env s =
     ((case telegram_reply env (tick s) of
         None \<Rightarrow> Inl (Error ''Captcha solving timeout'')
       | Some text \<Rightarrow> Inr (trim text)),
      s\<lparr>tick := Suc (tick s)\<rparr>)"

text \<open>\<^verbatim>\<open>geminiModel.generateContent(...)\<close> followed by \<^verbatim>\<open>result.response.text()\<close>\<close>

definition generateContent :: "env \<Rightarrow> world \<Rightarrow> string result \<times> world" where
  "generateContent env s =
     ((case gemini_api env (tick s) of Inl msg \<Rightarrow> Inl (Error msg) | Inr text \<Rightarrow> Inr text),
      s\<lparr>tick := Suc (tick s)\<rparr>)"

definition processCaptcha_v4_try :: "env \<Rightarrow> json \<Rightarrow> world \<Rightarrow> json result \<times> world" where
  "processCaptcha_v4_try env base64Image s =
     (if model s = ''manual'' then
        (case saveCaptchaImage_v4 env base64Image s of
           (Inl e, s1) \<Rightarrow> (Inl e, s1)
         | (Inr u, s1) \<Rightarrow>
             (case question env s1 of (captchaText, s2) \<Rightarrow> (Inr (JStr captchaText), s2)))
      else if model s = ''telegram'' then
        (case saveCaptchaImage_v4 env base64Image s of
           (Inl e, s1) \<Rightarrow> (Inl e, s1)
         | (Inr u, s1) \<Rightarrow>
        (case sendPhoto env s1 of
           (Inl e, s2) \<Rightarrow> (Inl e, s2)
         | (Inr u, s2) \<Rightarrow>
        (case await_reply env s2 of
           (Inl e, s3) \<Rightarrow> (Inl e, s3)
         | (Inr captchaText, s3) \<Rightarrow> (Inr (JStr captchaText), s3))))
      else if model s = ''2captcha'' then
        (case solver_call env s of
           (Inl e, s1) \<Rightarrow> (Inl e, s1)
         | (Inr result, s1) \<Rightarrow> (get_field result ''data'', s1))
      else if model s = ''gemini'' then
        (case saveCaptchaImage_v4 env base64Image s of
           (Inl e, s1) \<Rightarrow> (Inl e, s1)
         | (Inr u, s1) \<Rightarrow>
        (case generateContent env s1 of
           (Inl e, s2) \<Rightarrow> (Inl e, s2)
         | (Inr text, s2) \<Rightarrow> (Inr (JStr (trim text)), s2)))
      else (Inr JUndefined, s))"

definition processCaptcha_v4 :: "env \<Rightarrow> json \<Rightarrow> world \<Rightarrow> json result \<times> world" where
  "processCaptcha_v4 env base64Image s =
     (case processCaptcha_v4_try env base64Image s of
        (Inr v, s1) \<Rightarrow> (Inr v, s1)
      | (Inl e, s1) \<Rightarrow> (Inl (Error (''Failed to solve captcha: '' @ message e)), s1))"









subsection \<open>Concrete worlds and environments\<close>

text \<open>
  The world at program start, and an environment whose network and solvers are down while
  the file system works; used to run the model on concrete inputs.
\<close>

definition world0 :: world where
  "world0 = \<lparr>tick = 0, events = [], model = ''2captcha'', useProxies = False, proxyList = [],
     currentProxyIndex = 0, telegramBot = False, telegramChatId = None\<rparr>"

definition env_down :: env where
  "env_down = \<lparr>math_random = (\<lambda>i. 1 / 2), net = (\<lambda>i. Inl ''ECONNREFUSED''), fs = (\<lambda>i. None),
     solver_api = (\<lambda>i. Inl ''no solver''), gemini_api = (\<lambda>i. Inl ''no model''),
     stdin = (\<lambda>i. []), telegram_api = (\<lambda>i. None), telegram_reply = (\<lambda>i. None),
     agent_error = (\<lambda>p. None)\<rparr>"

definition world_two_proxies :: world where
  "world_two_proxies = world0\<lparr>useProxies := True, proxyList := [''http://a:1'', ''socks5://b:2'']\<rparr>"





text \<open>
  What \<^verbatim>\<open>readCredentials\<close> makes of a line that holds a colon, in the words of the text
  before the first colon and the text between the first and the second.
\<close>

definition before_colon :: "string \<Rightarrow> string" where
  "before_colon line = takeWhile (\<lambda>c. c \<noteq> CHR '':'') line"

definition after_colon :: "string \<Rightarrow> string" where
  "after_colon line = drop 1 (dropWhile (\<lambda>c. c \<noteq> CHR '':'') line)"

definition credential_spec :: "string \<Rightarrow> credential" where
  "credential_spec line =
     \<lparr>cred_email = trim (before_colon line),
      cred_password = trim (before_colon (after_colon line))\<rparr>"

definition credentials_example :: string where
  "credentials_example =
     '' a@x.io : p1:tail'' @ [CHR 0x0A] @ ''no colon here'' @ [CHR 0x0D, CHR 0x0A] @ ''b@x.io:p2 ''"

text \<open>An environment whose operator types \<open>typed\<close>, and one whose solving service answers \<open>v\<close>.\<close>

definition env_operator :: "string \<Rightarrow> env" where
  "env_operator typed = env_down\<lparr>stdin := (\<lambda>i. typed)\<rparr>"

definition env_solver :: "json \<Rightarrow> env" where
  "env_solver v = env_down\<lparr>solver_api := (\<lambda>i. Inr v)\<rparr>"

subsection \<open>Traces\<close>

text \<open>
  \<open>inner\<close> are the events a sub-request or a solver leaves in the trace: sleeps between
  its attempts, the captcha image written to disk, the photo sent to the operator.
  \<open>quiet s s'\<close>: from \<open>s\<close> to \<open>s'\<close> the trace grew by such events only, and the Telegram
  binding is the same.  \<open>is_record\<close> are the lines appended to the two result logs.
\<close>

fun inner :: "event \<Rightarrow> bool" where
  "inner (Slept d) = True"
| "inner (Wrote f) = True"
| "inner (SentPhoto f) = True"
| "inner e = False"

fun is_record :: "event \<Rightarrow> bool" where
  "is_record (Appended file line) = True"
| "is_record e = False"

definition quiet :: "world \<Rightarrow> world \<Rightarrow> bool" where
  "quiet s s' =
     (\<exists>es. events s' = events s @ es \<and> list_all inner es
        \<and> telegramBot s' = telegramBot s \<and> telegramChatId s' = telegramChatId s)"

text \<open>
  An environment in which a login goes through at the first attempt (puzzle id, puzzle
  image, solver, login, in this order after the 22 random draws) and every later request
  fails, the points query among them.
\<close>

definition env_points_down :: env where
  "env_points_down = env_down\<lparr>
     net := (\<lambda>i.
       if i = 22 then Inr \<lparr>status = 200, body = Inr (JObj [(''puzzle_id'', JStr ''p1'')])\<rparr>
       else if i = 23 then Inr \<lparr>status = 200, body = Inr (JObj [(''imgBase64'', JStr ''aW1n'')])\<rparr>
       else if i = 25 then
         Inr \<lparr>status = 200, body = Inr (JObj [(''message'', JStr ''Successfully logged in!''),
                (''data'', JObj [(''token'', JStr ''tok'')])])\<rparr>
       else Inl ''ECONNRESET''),
     solver_api := (\<lambda>i. Inr (JObj [(''data'', JStr ''1234'')]))\<rparr>"

text \<open>
  \<open>records s\<close> are the lines appended to the two result logs so far, in order.
  \<open>terminal s s' rec\<close>: from \<open>s\<close> to \<open>s'\<close> the trace grew by events that are no records,
  and then by \<open>rec\<close>, its last event.
\<close>

definition records :: "world \<Rightarrow> event list" where
  "records s = filter is_record (events s)"

definition terminal :: "world \<Rightarrow> world \<Rightarrow> event \<Rightarrow> bool" where
  "terminal s s' rec =
     (\<exists>pre. events s' = events s @ pre @ [rec] \<and> list_all (\<lambda>e. \<not> is_record e) pre
        \<and> telegramBot s' = telegramBot s \<and> telegramChatId s' = telegramChatId s)"

subsection \<open>The trace of the unbounded retry policy, in the words of the specification\<close>






subsection \<open>The trace of a batch, in the words of the specification\<close>







section \<open>Properties\<close>

subsection \<open>The session identity generator\<close>

lemma hex_at_range:
  fixes r :: rat
  assumes a: "0 \<le> r" "r < 1"
  shows "\<exists>c. hex_at \<lfloor>r * 16\<rfloor> = [c] \<and> c \<in> set hexDigits"
proof -
  have lo: "0 \<le> \<lfloor>r * 16\<rfloor>" using a by simp
  have hi: "\<lfloor>r * 16\<rfloor> < 16" using a by (simp add: floor_less_iff)
  have len: "length hexDigits = 16" by (simp add: hexDigits_def)
  have "nat \<lfloor>r * 16\<rfloor> < length hexDigits" unfolding len using lo hi by linarith
  then have "hexDigits ! nat \<lfloor>r * 16\<rfloor> \<in> set hexDigits" by (rule nth_mem)
  moreover have "hex_at \<lfloor>r * 16\<rfloor> = [hexDigits ! nat \<lfloor>r * 16\<rfloor>]"
    unfolding hex_at_def using lo hi by simp
  ultimately show ?thesis by blast
qed

lemma generateAppId_loop_eq:
  "i \<le> 22 \<Longrightarrow> generateAppId_loop env i appId s =
     (appId @ concat (map (\<lambda>k. hex_at \<lfloor>math_random env (tick s + k) * 16\<rfloor>) [0..<22 - i]),
      s\<lparr>tick := tick s + (22 - i)\<rparr>)"
proof (induction env i appId s rule: generateAppId_loop.induct)
  case (1 env i appId s)
  show ?case
  proof (cases "i < 22")
    case True
    then have up: "[0..<22 - i] = 0 # map Suc [0..<22 - (i + 1)]"
      by (metis Suc_diff_Suc Suc_eq_plus1 map_Suc_upt upt_conv_Cons zero_less_diff)
    have "generateAppId_loop env i appId s =
       generateAppId_loop env (i + 1) (appId @ hex_at \<lfloor>math_random env (tick s) * 16\<rfloor>)
         (s\<lparr>tick := Suc (tick s)\<rparr>)"
      using True by (subst generateAppId_loop.simps) simp
    also have "\<dots> =
       (appId @ concat (map (\<lambda>k. hex_at \<lfloor>math_random env (tick s + k) * 16\<rfloor>) [0..<22 - i]),
        s\<lparr>tick := tick s + (22 - i)\<rparr>)"
      using True 1 by (simp add: up comp_def)
    finally show ?thesis .
  next
    case False
    with 1 have "i = 22" by simp
    then show ?thesis by (subst generateAppId_loop.simps) simp
  qed
qed

lemma generateAppId_eq:
  "generateAppId env s =
     (''67'' @ concat (map (\<lambda>k. hex_at \<lfloor>math_random env (tick s + k) * 16\<rfloor>) [0..<22]),
      s\<lparr>tick := tick s + 22\<rparr>)"
  using generateAppId_loop_eq [of 0 env "''67''" s] by (simp add: generateAppId_def)

lemma concat_singletons:
  "(\<And>k. \<exists>c. h k = [c] \<and> c \<in> A) \<Longrightarrow>
     length (concat (map h ks)) = length ks \<and> set (concat (map h ks)) \<subseteq> A"
proof (induction ks)
  case Nil
  show ?case by simp
next
  case (Cons k ks)
  from Cons.prems obtain c where "h k = [c]" "c \<in> A" by blast
  with Cons show ?case by simp
qed

text \<open>
  C7.  With \<^verbatim>\<open>Math.random()\<close> in \<open>[0, 1)\<close>, \<^verbatim>\<open>generateAppId\<close> returns 24 characters: the
  prefix \<^verbatim>\<open>67\<close>, then 22 characters of \<^verbatim>\<open>0123456789abcdef\<close>.  It cannot fail (its result
  is a plain string), it leaves the world as it was but for the 22 random draws it
  consumed, and the identifier depends on nothing but those draws.
\<close>

theorem generateAppId_format:
  assumes rnd: "\<forall>i. 0 \<le> math_random env i \<and> math_random env i < 1"
  shows "length (fst (generateAppId env s)) = 24
    \<and> take 2 (fst (generateAppId env s)) = ''67''
    \<and> set (drop 2 (fst (generateAppId env s))) \<subseteq> set ''0123456789abcdef''
    \<and> snd (generateAppId env s) = s\<lparr>tick := tick s + 22\<rparr>
    \<and> (\<forall>t. tick t = tick s \<longrightarrow> fst (generateAppId env t) = fst (generateAppId env s))"
proof -
  let ?h = "\<lambda>k. hex_at \<lfloor>math_random env (tick s + k) * 16\<rfloor>"
  have "\<And>k. \<exists>c. ?h k = [c] \<and> c \<in> set hexDigits"
    using rnd hex_at_range by blast
  then have "length (concat (map ?h [0..<22])) = length [0..<22::nat]
      \<and> set (concat (map ?h [0..<22])) \<subseteq> set hexDigits"
    by (rule concat_singletons)
  then show ?thesis
    by (simp add: generateAppId_eq hexDigits_def)
qed

theorem generateAppId_format_witness:
  "generateAppId env_down world0 = (''678888888888888888888888'', world0\<lparr>tick := 22\<rparr>)
    \<and> length (fst (generateAppId env_down world0)) = 24
    \<and> set (drop 2 (fst (generateAppId env_down world0))) \<subseteq> set ''0123456789abcdef''"
proof -
  have rnd: "\<forall>i. 0 \<le> math_random env_down i \<and> math_random env_down i < 1"
    by (simp add: env_down_def)
  have "generateAppId env_down world0 = (''678888888888888888888888'', world0\<lparr>tick := 22\<rparr>)"
    by (simp add: generateAppId_def generateAppId_loop.simps env_down_def world0_def
        hex_at_def hexDigits_def)
  with generateAppId_format [OF rnd, of world0] show ?thesis by simp
qed

subsection \<open>The proxy rotator\<close>

lemma getProxyAgent_times_enabled:
  "useProxies s \<Longrightarrow> currentProxyIndex s < length (proxyList s) \<Longrightarrow>
   getProxyAgent_times env n s =
     (map (\<lambda>k. new_agent env (proxyList s ! ((currentProxyIndex s + k) mod length (proxyList s))))
        [0..<n],
      s\<lparr>currentProxyIndex := (currentProxyIndex s + n) mod length (proxyList s)\<rparr>)"
proof (induction n arbitrary: s)
  case 0
  then show ?case by simp
next
  case (Suc n)
  let ?K = "length (proxyList s)"
  let ?s1 = "s\<lparr>currentProxyIndex := (currentProxyIndex s + 1) mod ?K\<rparr>"
  from Suc.prems have K: "0 < ?K" by (cases "proxyList s") simp_all
  have one: "getProxyAgent env s = (new_agent env (proxyList s ! currentProxyIndex s), ?s1)"
    using Suc.prems K by (auto simp: getProxyAgent_def Let_def)
  have ih: "getProxyAgent_times env n ?s1 =
     (map (\<lambda>k. new_agent env (proxyList s ! ((currentProxyIndex s + Suc k) mod ?K))) [0..<n],
      s\<lparr>currentProxyIndex := (currentProxyIndex s + Suc n) mod ?K\<rparr>)"
    using Suc.IH [of ?s1] Suc.prems K by (simp add: mod_add_left_eq mod_Suc_eq)
  have up: "[0..<Suc n] = 0 # map Suc [0..<n]"
    by (simp add: map_Suc_upt upt_conv_Cons del: upt_Suc)
  show ?case
    unfolding up using one ih Suc.prems by (simp add: comp_def del: upt_Suc)
qed

lemma getProxyAgent_times_disabled:
  "\<not> useProxies s \<or> length (proxyList s) = 0 \<Longrightarrow>
   getProxyAgent_times env n s = (replicate n (Inr None), s)"
  by (induction n) (auto simp: getProxyAgent_def)

text \<open>
  C4.  With proxying enabled and a pool of \<open>K > 0\<close> entries, \<open>n\<close> calls of
  \<^verbatim>\<open>getProxyAgent\<close> one after the other from the cursor of program start return the agents
  of \<open>pool[0], pool[1], ..., pool[K-1], pool[0], ...\<close> (call \<open>k\<close> the agent of
  \<open>pool[k mod K]\<close>; from a cursor \<open>c\<close>, of \<open>pool[(c + k) mod K]\<close>) and leave the cursor at
  \<open>(c + n) mod K\<close>.  With proxying disabled or an empty pool every call returns
  \<^verbatim>\<open>null\<close> and the world is untouched.
\<close>

theorem getProxyAgent_round_robin:
  "(useProxies s \<and> 0 < length (proxyList s) \<and> currentProxyIndex s = 0 \<longrightarrow>
      fst (getProxyAgent_times env n s) =
        map (\<lambda>k. new_agent env (proxyList s ! (k mod length (proxyList s)))) [0..<n])
   \<and> (useProxies s \<and> currentProxyIndex s < length (proxyList s) \<longrightarrow>
      fst (getProxyAgent_times env n s) =
        map (\<lambda>k. new_agent env
               (proxyList s ! ((currentProxyIndex s + k) mod length (proxyList s)))) [0..<n]
      \<and> currentProxyIndex (snd (getProxyAgent_times env n s)) =
          (currentProxyIndex s + n) mod length (proxyList s))
   \<and> (\<not> useProxies s \<or> length (proxyList s) = 0 \<longrightarrow>
      getProxyAgent_times env n s = (replicate n (Inr None), s))"
  using getProxyAgent_times_enabled [of s env n] getProxyAgent_times_disabled [of s env n]
  by auto

theorem getProxyAgent_round_robin_witness:
  "fst (getProxyAgent_times env_down 5 world_two_proxies) =
     [Inr (Some (HttpsProxyAgent ''http://a:1'')), Inr (Some (SocksProxyAgent ''socks5://b:2'')),
      Inr (Some (HttpsProxyAgent ''http://a:1'')), Inr (Some (SocksProxyAgent ''socks5://b:2'')),
      Inr (Some (HttpsProxyAgent ''http://a:1''))]
   \<and> currentProxyIndex (snd (getProxyAgent_times env_down 5 world_two_proxies)) = 1
   \<and> getProxyAgent_times env_down 5 world0 = (replicate 5 (Inr None), world0)"
proof -
  let ?w = world_two_proxies
  have e: "useProxies ?w \<and> 0 < length (proxyList ?w) \<and> currentProxyIndex ?w = 0"
    and c: "useProxies ?w \<and> currentProxyIndex ?w < length (proxyList ?w)"
    by (simp_all add: world_two_proxies_def world0_def)
  have d: "\<not> useProxies world0 \<or> length (proxyList world0) = 0"
    by (simp add: world0_def)
  have five: "[0..<5] = [0, 1, 2, 3, 4::nat]"
    by (simp add: upt_rec)
  have pl: "proxyList ?w = [''http://a:1'', ''socks5://b:2'']"
    and len: "length (proxyList ?w) = 2"
    and ae: "agent_error env_down = (\<lambda>p. None)"
    by (simp_all add: world_two_proxies_def world0_def env_down_def)
  have "fst (getProxyAgent_times env_down 5 ?w) =
      map (\<lambda>k. new_agent env_down (proxyList ?w ! (k mod length (proxyList ?w)))) [0..<5]"
    using getProxyAgent_round_robin [of ?w env_down 5] e by blast
  also have "\<dots> =
     [Inr (Some (HttpsProxyAgent ''http://a:1'')), Inr (Some (SocksProxyAgent ''socks5://b:2'')),
      Inr (Some (HttpsProxyAgent ''http://a:1'')), Inr (Some (SocksProxyAgent ''socks5://b:2'')),
      Inr (Some (HttpsProxyAgent ''http://a:1''))]"
    unfolding five len by (simp add: pl ae new_agent_def)
  finally have A: "fst (getProxyAgent_times env_down 5 ?w) =
     [Inr (Some (HttpsProxyAgent ''http://a:1'')), Inr (Some (SocksProxyAgent ''socks5://b:2'')),
      Inr (Some (HttpsProxyAgent ''http://a:1'')), Inr (Some (SocksProxyAgent ''socks5://b:2'')),
      Inr (Some (HttpsProxyAgent ''http://a:1''))]" .
  have "currentProxyIndex (snd (getProxyAgent_times env_down 5 ?w)) =
      (currentProxyIndex ?w + 5) mod length (proxyList ?w)"
    using getProxyAgent_round_robin [of ?w env_down 5] c by blast
  also have "\<dots> = 1"
    unfolding len by (simp add: world_two_proxies_def world0_def)
  finally have B: "currentProxyIndex (snd (getProxyAgent_times env_down 5 ?w)) = 1" .
  have C: "getProxyAgent_times env_down 5 world0 = (replicate 5 (Inr None), world0)"
    using getProxyAgent_round_robin [of world0 env_down 5] d by blast
  from A B C show ?thesis by blast
qed

subsection \<open>The points query\<close>






subsection \<open>Reading the credentials\<close>

lemma split_on_Cons:
  "split_on c xs = takeWhile (\<lambda>x. x \<noteq> c) xs #
     (if c \<in> set xs then split_on c (drop 1 (dropWhile (\<lambda>x. x \<noteq> c) xs)) else [])"
proof (induction xs)
  case Nil
  show ?case by simp
next
  case (Cons x xs)
  show ?case
  proof (cases "x = c")
    case True
    then show ?thesis by simp
  next
    case False
    then show ?thesis using Cons by (simp split: list.splits)
  qed
qed

lemma credential_of_line_colon:
  assumes "CHR '':'' \<in> set line"
  shows "credential_of_line line = Inr (credential_spec line)"
proof -
  have 1: "split_on CHR '':'' line = before_colon line # split_on CHR '':'' (after_colon line)"
    using assms split_on_Cons [of "CHR '':''" line] by (simp add: before_colon_def after_colon_def)
  obtain rest where 2: "split_on CHR '':'' (after_colon line) = before_colon (after_colon line) # rest"
    using split_on_Cons [of "CHR '':''" "after_colon line"] by (simp add: before_colon_def)
  show ?thesis
    by (simp add: credential_of_line_def 1 2 credential_spec_def)
qed

lemma map_result_all_Inr:
  "(\<And>x. x \<in> set xs \<Longrightarrow> f x = Inr (g x)) \<Longrightarrow> map_result f xs = Inr (map g xs)"
  by (induction xs) simp_all

text \<open>
  C10.  \<^verbatim>\<open>readCredentials\<close> keeps, in order, exactly the trimmed lines that hold a colon (a
  line without one is dropped), and makes of each the pair of the trimmed text before its
  first colon and the trimmed text between its first and its second colon (or the end of
  the line): what follows a second colon is discarded.  An unreadable file gives no
  credentials.
\<close>

theorem readCredentials_lines:
  "readCredentials (Inr content) =
     map credential_spec
       (filter (\<lambda>line. CHR '':'' \<in> set line) (map trim (split_on CHR 0x0A content)))
   \<and> readCredentials (Inl e) = []"
proof -
  let ?ls = "filter (\<lambda>line. CHR '':'' \<in> set line) (map trim (split_on CHR 0x0A content))"
  have "map_result credential_of_line ?ls = Inr (map credential_spec ?ls)"
    by (rule map_result_all_Inr) (simp add: credential_of_line_colon)
  then show ?thesis by (simp add: readCredentials_def)
qed

theorem readCredentials_lines_witness:
  "readCredentials (Inr credentials_example) =
     [\<lparr>cred_email = ''a@x.io'', cred_password = ''p1''\<rparr>,
      \<lparr>cred_email = ''b@x.io'', cred_password = ''p2''\<rparr>]"
proof -
  have "map credential_spec
       (filter (\<lambda>line. CHR '':'' \<in> set line) (map trim (split_on CHR 0x0A credentials_example)))
     = [\<lparr>cred_email = ''a@x.io'', cred_password = ''p1''\<rparr>,
        \<lparr>cred_email = ''b@x.io'', cred_password = ''p2''\<rparr>]"
    by (simp add: credentials_example_def trim_def is_space_def credential_spec_def
        before_colon_def after_colon_def)
  with readCredentials_lines [of credentials_example] show ?thesis by simp
qed

subsection \<open>The captcha solvers\<close>

lemma trim_outer:
  "trim s = [] \<or> (\<not> is_space (hd (trim s)) \<and> \<not> is_space (last (trim s)))"
proof -
  let ?a = "dropWhile is_space s"
  let ?b = "dropWhile is_space (rev ?a)"
  show ?thesis
  proof (cases "?b = []")
    case True
    then show ?thesis by (simp add: trim_def)
  next
    case False
    then have hb: "\<not> is_space (hd ?b)" by (rule hd_dropWhile)
    from False have a: "?a \<noteq> []" by (metis dropWhile.simps(1) rev.simps(1))
    then have ha: "\<not> is_space (hd ?a)" by (rule hd_dropWhile)
    have "last (rev ?a) = hd ?a" using a by (simp add: last_rev)
    moreover have "rev ?a = takeWhile is_space (rev ?a) @ ?b" by simp
    ultimately have "last ?b = hd ?a" using False by (metis last_appendR)
    then show ?thesis using False ha hb by (simp add: trim_def hd_rev last_rev)
  qed
qed

text \<open>
  The Telegram and the Gemini solver of V4 hand back a trimmed text, whatever the
  operator or the model answered.
\<close>

lemma processCaptcha_v4_trimmed:
  assumes "model s = ''telegram'' \<or> model s = ''gemini''"
    and "processCaptcha_v4 env base64Image s = (Inr v, s')"
  shows "\<exists>t. v = JStr (trim t)"
  using assms
  by (auto simp: processCaptcha_v4_def processCaptcha_v4_try_def await_reply_def
      generateContent_def split: prod.splits sum.splits option.splits if_splits)

text \<open>
  C8 at a failing input.  With the manual solver the text is what the operator typed,
  white space included; with the 2captcha solver it is the \<^verbatim>\<open>data\<close> field of the service's
  answer as it came.  Neither is trimmed.
\<close>

theorem processCaptcha_untrimmed:
  "fst (processCaptcha_v4 (env_operator '' 7F3k '') (JStr ''iVBOR'') (world0\<lparr>model := ''manual''\<rparr>))
     = Inr (JStr '' 7F3k '')
   \<and> fst (processCaptcha_v1 (env_operator '' 7F3k '') (JStr ''iVBOR'') (world0\<lparr>model := ''manual''\<rparr>))
     = Inr (JStr '' 7F3k '')
   \<and> fst (processCaptcha_v4 (env_solver (JObj [(''data'', JStr ''1234 '')])) (JStr ''iVBOR'') world0)
     = Inr (JStr ''1234 '')
   \<and> trim '' 7F3k '' = ''7F3k''"
  by (simp add: processCaptcha_v4_def processCaptcha_v4_try_def processCaptcha_v1_def
      saveCaptchaImage_v4_def saveCaptchaImage_v1_def question_def solver_call_def
      env_operator_def env_solver_def env_down_def world0_def trim_def is_space_def)

subsection \<open>Sub-requests and solvers leave no record\<close>

named_theorems quiet_simps

lemma quiet_refl: "quiet s s"
  by (simp add: quiet_def)

lemma quiet_trans: "quiet s s1 \<Longrightarrow> quiet s1 s2 \<Longrightarrow> quiet s s2"
  by (auto simp: quiet_def)

lemma quiet_tick [quiet_simps]: "quiet s0 s \<Longrightarrow> quiet s0 (s\<lparr>tick := n\<rparr>)"
  by (simp add: quiet_def)

lemma quiet_setTimeout [quiet_simps]: "quiet s0 s \<Longrightarrow> quiet s0 (setTimeout d s)"
  by (auto simp: quiet_def setTimeout_def)

lemma quiet_fetch [quiet_simps]: "quiet s0 s \<Longrightarrow> quiet s0 (snd (fetch env s))"
  by (auto simp: quiet_def fetch_def)

lemma quiet_getProxyAgent [quiet_simps]: "quiet s0 s \<Longrightarrow> quiet s0 (snd (getProxyAgent env s))"
  by (auto simp: quiet_def getProxyAgent_def Let_def)

lemma quiet_solver_call [quiet_simps]: "quiet s0 s \<Longrightarrow> quiet s0 (snd (solver_call env s))"
  by (auto simp: quiet_def solver_call_def)

lemma quiet_question [quiet_simps]: "quiet s0 s \<Longrightarrow> quiet s0 (snd (question env s))"
  by (auto simp: quiet_def question_def)

lemma quiet_saveCaptchaImage_v1 [quiet_simps]:
  "quiet s0 s \<Longrightarrow> quiet s0 (snd (saveCaptchaImage_v1 env img s))"
  by (auto simp: quiet_def saveCaptchaImage_v1_def split: option.splits)

lemma quiet_saveCaptchaImage_v4 [quiet_simps]:
  "quiet s0 s \<Longrightarrow> quiet s0 (snd (saveCaptchaImage_v4 env img s))"
  by (auto simp: quiet_def saveCaptchaImage_v4_def split: option.splits)

lemma quiet_sendPhoto [quiet_simps]: "quiet s0 s \<Longrightarrow> quiet s0 (snd (sendPhoto env s))"
  by (auto simp: quiet_def sendPhoto_def split: option.splits)

lemma quiet_await_reply [quiet_simps]: "quiet s0 s \<Longrightarrow> quiet s0 (snd (await_reply env s))"
  by (auto simp: quiet_def await_reply_def)

lemma quiet_generateContent [quiet_simps]:
  "quiet s0 s \<Longrightarrow> quiet s0 (snd (generateContent env s))"
  by (auto simp: quiet_def generateContent_def)

lemma quiet_generateAppId [quiet_simps]: "quiet s0 s \<Longrightarrow> quiet s0 (snd (generateAppId env s))"
  by (auto simp: quiet_def generateAppId_eq)

lemma quiet_getPuzzleId_v3_try [quiet_simps]:
  "quiet s0 s \<Longrightarrow> quiet s0 (snd (getPuzzleId_v3_try env appId s))"
  unfolding getPuzzleId_v3_try_def
  by (simp add: split_beta quiet_simps split: sum.split)

lemma quiet_getPuzzleId_v3_loop:
  "quiet s0 s \<Longrightarrow> quiet s0 (snd (getPuzzleId_v3_loop env appId attempt s))"
proof (induction env appId attempt s rule: getPuzzleId_v3_loop.induct)
  case (1 env appId attempt s)
  obtain x s1 where t: "getPuzzleId_v3_try env appId s = (x, s1)"
    by (cases "getPuzzleId_v3_try env appId s")
  have q1: "quiet s0 s1"
    using quiet_getPuzzleId_v3_try [OF "1.prems", of env appId] t by simp
  have q2: "quiet s0 (setTimeout d s1)" for d using q1 by (rule quiet_setTimeout)
  from "1.prems" q1 q2 t "1.IH" [OF _ t [symmetric]] show ?case
    by (subst getPuzzleId_v3_loop.simps) (auto split: sum.splits)
qed

lemma quiet_getPuzzleId_v3 [quiet_simps]:
  "quiet s0 s \<Longrightarrow> quiet s0 (snd (getPuzzleId_v3 env appId s))"
  unfolding getPuzzleId_v3_def by (rule quiet_getPuzzleId_v3_loop)

lemma quiet_getPuzzleImage_v3_try [quiet_simps]:
  "quiet s0 s \<Longrightarrow> quiet s0 (snd (getPuzzleImage_v3_try env puzzleId appId s))"
  unfolding getPuzzleImage_v3_try_def
  by (simp add: split_beta quiet_simps split: sum.split)

lemma quiet_getPuzzleImage_v3_loop:
  "quiet s0 s \<Longrightarrow> quiet s0 (snd (getPuzzleImage_v3_loop env puzzleId appId attempt s))"
proof (induction env puzzleId appId attempt s rule: getPuzzleImage_v3_loop.induct)
  case (1 env puzzleId appId attempt s)
  obtain x s1 where t: "getPuzzleImage_v3_try env puzzleId appId s = (x, s1)"
    by (cases "getPuzzleImage_v3_try env puzzleId appId s")
  have q1: "quiet s0 s1"
    using quiet_getPuzzleImage_v3_try [OF "1.prems", of env puzzleId appId] t by simp
  have q2: "quiet s0 (setTimeout d s1)" for d using q1 by (rule quiet_setTimeout)
  from "1.prems" q1 q2 t "1.IH" [OF _ t [symmetric]] show ?case
    by (subst getPuzzleImage_v3_loop.simps) (auto split: sum.splits)
qed

lemma quiet_getPuzzleImage_v3 [quiet_simps]:
  "quiet s0 s \<Longrightarrow> quiet s0 (snd (getPuzzleImage_v3 env puzzleId appId s))"
  unfolding getPuzzleImage_v3_def by (rule quiet_getPuzzleImage_v3_loop)

lemma quiet_processCaptcha_v3_try [quiet_simps]:
  "quiet s0 s \<Longrightarrow> quiet s0 (snd (processCaptcha_v3_try env base64Image s))"
  unfolding processCaptcha_v3_try_def
  by (simp add: split_beta quiet_simps split: sum.split)

lemma quiet_processCaptcha_v3_loop:
  "quiet s0 s \<Longrightarrow> quiet s0 (snd (processCaptcha_v3_loop env base64Image attempt s))"
proof (induction env base64Image attempt s rule: processCaptcha_v3_loop.induct)
  case (1 env base64Image attempt s)
  obtain x s1 where t: "processCaptcha_v3_try env base64Image s = (x, s1)"
    by (cases "processCaptcha_v3_try env base64Image s")
  have q1: "quiet s0 s1"
    using quiet_processCaptcha_v3_try [OF "1.prems", of env base64Image] t by simp
  have q2: "quiet s0 (setTimeout d s1)" for d using q1 by (rule quiet_setTimeout)
  from "1.prems" q1 q2 t "1.IH" [OF _ t [symmetric]] show ?case
    by (subst processCaptcha_v3_loop.simps) (auto split: sum.splits)
qed

lemma quiet_processCaptcha_v3 [quiet_simps]:
  "quiet s0 s \<Longrightarrow> quiet s0 (snd (processCaptcha_v3 env base64Image s))"
  unfolding processCaptcha_v3_def by (rule quiet_processCaptcha_v3_loop)

lemma quiet_getUserPoints_v3_try [quiet_simps]:
  "quiet s0 s \<Longrightarrow> quiet s0 (snd (getUserPoints_v3_try env token appId s))"
  unfolding getUserPoints_v3_try_def
  by (simp add: split_beta quiet_simps split: sum.split)

lemma quiet_getUserPoints_v3_loop:
  "quiet s0 s \<Longrightarrow> quiet s0 (snd (getUserPoints_v3_loop env token appId attempt s))"
proof (induction env token appId attempt s rule: getUserPoints_v3_loop.induct)
  case (1 env token appId attempt s)
  obtain x s1 where t: "getUserPoints_v3_try env token appId s = (x, s1)"
    by (cases "getUserPoints_v3_try env token appId s")
  have q1: "quiet s0 s1"
    using quiet_getUserPoints_v3_try [OF "1.prems", of env token appId] t by simp
  have q2: "quiet s0 (setTimeout d s1)" for d using q1 by (rule quiet_setTimeout)
  from "1.prems" q1 q2 t "1.IH" [OF _ t [symmetric]] show ?case
    by (subst getUserPoints_v3_loop.simps) (auto split: sum.splits)
qed

lemma quiet_getUserPoints_v3 [quiet_simps]:
  "quiet s0 s \<Longrightarrow> quiet s0 (snd (getUserPoints_v3 env token appId s))"
  unfolding getUserPoints_v3_def by (rule quiet_getUserPoints_v3_loop)

lemma quiet_getPuzzleId_v1_try [quiet_simps]:
  "quiet s0 s \<Longrightarrow> quiet s0 (snd (getPuzzleId_v1_try env appId s))"
  unfolding getPuzzleId_v1_try_def
  by (simp add: split_beta quiet_simps split: sum.split)

lemma quiet_getPuzzleId_v1_loop:
  "quiet s0 s \<Longrightarrow> quiet s0 (snd (getPuzzleId_v1_loop env appId attempt s))"
proof (induction env appId attempt s rule: getPuzzleId_v1_loop.induct)
  case (1 env appId attempt s)
  obtain x s1 where t: "getPuzzleId_v1_try env appId s = (x, s1)"
    by (cases "getPuzzleId_v1_try env appId s")
  have q1: "quiet s0 s1"
    using quiet_getPuzzleId_v1_try [OF "1.prems", of env appId] t by simp
  have q2: "quiet s0 (setTimeout d s1)" for d using q1 by (rule quiet_setTimeout)
  from "1.prems" q1 q2 t "1.IH" [OF _ t [symmetric]] show ?case
    by (subst getPuzzleId_v1_loop.simps) (auto split: sum.splits)
qed

lemma quiet_getPuzzleId_v1 [quiet_simps]:
  "quiet s0 s \<Longrightarrow> quiet s0 (snd (getPuzzleId_v1 env appId s))"
  unfolding getPuzzleId_v1_def by (rule quiet_getPuzzleId_v1_loop)

lemma quiet_getPuzzleImage_v1_try [quiet_simps]:
  "quiet s0 s \<Longrightarrow> quiet s0 (snd (getPuzzleImage_v1_try env puzzleId appId s))"
  unfolding getPuzzleImage_v1_try_def
  by (simp add: split_beta quiet_simps split: sum.split)

lemma quiet_getPuzzleImage_v1_loop:
  "quiet s0 s \<Longrightarrow> quiet s0 (snd (getPuzzleImage_v1_loop env puzzleId appId attempt s))"
proof (induction env puzzleId appId attempt s rule: getPuzzleImage_v1_loop.induct)
  case (1 env puzzleId appId attempt s)
  obtain x s1 where t: "getPuzzleImage_v1_try env puzzleId appId s = (x, s1)"
    by (cases "getPuzzleImage_v1_try env puzzleId appId s")
  have q1: "quiet s0 s1"
    using quiet_getPuzzleImage_v1_try [OF "1.prems", of env puzzleId appId] t by simp
  have q2: "quiet s0 (setTimeout d s1)" for d using q1 by (rule quiet_setTimeout)
  from "1.prems" q1 q2 t "1.IH" [OF _ t [symmetric]] show ?case
    by (subst getPuzzleImage_v1_loop.simps) (auto split: sum.splits)
qed

lemma quiet_getPuzzleImage_v1 [quiet_simps]:
  "quiet s0 s \<Longrightarrow> quiet s0 (snd (getPuzzleImage_v1 env puzzleId appId s))"
  unfolding getPuzzleImage_v1_def by (rule quiet_getPuzzleImage_v1_loop)

lemma quiet_getPuzzleId_v4_try [quiet_simps]:
  "quiet s0 s \<Longrightarrow> quiet s0 (snd (getPuzzleId_v4_try env appId s))"
  unfolding getPuzzleId_v4_try_def
  by (simp add: split_beta quiet_simps split: sum.split)

lemma quiet_getPuzzleId_v4_loop:
  "quiet s0 s \<Longrightarrow> quiet s0 (snd (getPuzzleId_v4_loop env appId attempt s))"
proof (induction env appId attempt s rule: getPuzzleId_v4_loop.induct)
  case (1 env appId attempt s)
  obtain x s1 where t: "getPuzzleId_v4_try env appId s = (x, s1)"
    by (cases "getPuzzleId_v4_try env appId s")
  have q1: "quiet s0 s1"
    using quiet_getPuzzleId_v4_try [OF "1.prems", of env appId] t by simp
  have q2: "quiet s0 (setTimeout d s1)" for d using q1 by (rule quiet_setTimeout)
  from "1.prems" q1 q2 t "1.IH" [OF _ t [symmetric]] show ?case
    by (subst getPuzzleId_v4_loop.simps) (auto split: sum.splits)
qed

lemma quiet_getPuzzleId_v4 [quiet_simps]:
  "quiet s0 s \<Longrightarrow> quiet s0 (snd (getPuzzleId_v4 env appId s))"
  unfolding getPuzzleId_v4_def by (rule quiet_getPuzzleId_v4_loop)

lemma quiet_getPuzzleImage_v4_try [quiet_simps]:
  "quiet s0 s \<Longrightarrow> quiet s0 (snd (getPuzzleImage_v4_try env puzzleId appId s))"
  unfolding getPuzzleImage_v4_try_def
  by (simp add: split_beta quiet_simps split: sum.split)

lemma quiet_getPuzzleImage_v4_loop:
  "quiet s0 s \<Longrightarrow> quiet s0 (snd (getPuzzleImage_v4_loop env puzzleId appId attempt s))"
proof (induction env puzzleId appId attempt s rule: getPuzzleImage_v4_loop.induct)
  case (1 env puzzleId appId attempt s)
  obtain x s1 where t: "getPuzzleImage_v4_try env puzzleId appId s = (x, s1)"
    by (cases "getPuzzleImage_v4_try env puzzleId appId s")
  have q1: "quiet s0 s1"
    using quiet_getPuzzleImage_v4_try [OF "1.prems", of env puzzleId appId] t by simp
  have q2: "quiet s0 (setTimeout d s1)" for d using q1 by (rule quiet_setTimeout)
  from "1.prems" q1 q2 t "1.IH" [OF _ t [symmetric]] show ?case
    by (subst getPuzzleImage_v4_loop.simps) (auto split: sum.splits)
qed

lemma quiet_getPuzzleImage_v4 [quiet_simps]:
  "quiet s0 s \<Longrightarrow> quiet s0 (snd (getPuzzleImage_v4 env puzzleId appId s))"
  unfolding getPuzzleImage_v4_def by (rule quiet_getPuzzleImage_v4_loop)

lemma quiet_processCaptcha_v1 [quiet_simps]:
  "quiet s0 s \<Longrightarrow> quiet s0 (snd (processCaptcha_v1 env base64Image s))"
  unfolding processCaptcha_v1_def
  by (simp add: split_beta quiet_simps split: sum.split)

lemma quiet_getUserPoints_v1_try [quiet_simps]:
  "quiet s0 s \<Longrightarrow> quiet s0 (snd (getUserPoints_v1_try env token appId s))"
  unfolding getUserPoints_v1_try_def
  by (simp add: split_beta quiet_simps split: sum.split)

lemma quiet_getUserPoints_v1 [quiet_simps]:
  "quiet s0 s \<Longrightarrow> quiet s0 (snd (getUserPoints_v1 env token appId s))"
  unfolding getUserPoints_v1_def
  by (simp add: split_beta quiet_simps split: sum.split)

lemma quiet_processCaptcha_v4_try [quiet_simps]:
  "quiet s0 s \<Longrightarrow> quiet s0 (snd (processCaptcha_v4_try env base64Image s))"
  unfolding processCaptcha_v4_try_def
  by (simp add: split_beta quiet_simps split: sum.split)

lemma quiet_processCaptcha_v4 [quiet_simps]:
  "quiet s0 s \<Longrightarrow> quiet s0 (snd (processCaptcha_v4 env base64Image s))"
  unfolding processCaptcha_v4_def
  by (simp add: split_beta quiet_simps split: sum.split)

lemma quiet_loginAccount_v3_token [quiet_simps]:
  "quiet s0 s \<Longrightarrow> quiet s0 (snd (loginAccount_v3_token env email password appId s))"
  unfolding loginAccount_v3_token_def
  by (simp add: split_beta quiet_simps split: sum.split)

lemma quiet_loginAccount_v1_token [quiet_simps]:
  "quiet s0 s \<Longrightarrow> quiet s0 (snd (loginAccount_v1_token env email password appId s))"
  unfolding loginAccount_v1_token_def
  by (simp add: split_beta quiet_simps split: sum.split)


subsection \<open>The retry loops of the sub-requests (V3)\<close>

lemma events_fetch [simp]: "events (snd (fetch env s)) = events s"
  by (simp add: fetch_def)

lemma events_getProxyAgent [simp]: "events (snd (getProxyAgent env s)) = events s"
  by (simp add: getProxyAgent_def Let_def)

lemma events_solver_call [simp]: "events (snd (solver_call env s)) = events s"
  by (simp add: solver_call_def)

lemma events_setTimeout [simp]: "events (setTimeout d s) = events s @ [Slept d]"
  by (simp add: setTimeout_def)

lemma string_of_nat_3 [simp]: "string_of_nat 3 = ''3''"
  by (simp add: string_of_nat.simps)

lemma events_getPuzzleId_v3_try [simp]:
  "events (snd (getPuzzleId_v3_try env appId s)) = events s"
  unfolding getPuzzleId_v3_try_def by (simp add: split_beta split: sum.split)

lemma getPuzzleId_v3_unroll:
  "getPuzzleId_v3 env appId s =
     (case getPuzzleId_v3_try env appId s of
        (Inr v, s1) \<Rightarrow> (Inr v, s1)
      | (Inl e1, s1) \<Rightarrow>
     (case getPuzzleId_v3_try env appId (setTimeout 1000 s1) of
        (Inr v, s2) \<Rightarrow> (Inr v, s2)
      | (Inl e2, s2) \<Rightarrow>
     (case getPuzzleId_v3_try env appId (setTimeout 2000 s2) of
        (Inr v, s3) \<Rightarrow> (Inr v, s3)
      | (Inl e3, s3) \<Rightarrow> (Inl (Error (''Failed to get puzzle ID after 3 attempts: '' @ message e3)), s3))))"
  by (simp add: getPuzzleId_v3_def getPuzzleId_v3_loop.simps MAX_RETRIES_def
      split: prod.split sum.split)

lemma getPuzzleId_v3_waits:
  assumes "getPuzzleId_v3 env appId s = (r, s')"
  shows "events s' = events s \<or> events s' = events s @ [Slept 1000]
     \<or> events s' = events s @ [Slept 1000, Slept 2000]"
proof -
  have e: "events (snd (getPuzzleId_v3_try env appId t)) = events t" for t by simp
  obtain x1 s1 where t1: "getPuzzleId_v3_try env appId s = (x1, s1)"
    by (cases "getPuzzleId_v3_try env appId s")
  obtain x2 s2 where t2: "getPuzzleId_v3_try env appId (setTimeout 1000 s1) = (x2, s2)"
    by (cases "getPuzzleId_v3_try env appId (setTimeout 1000 s1)")
  obtain x3 s3 where t3: "getPuzzleId_v3_try env appId (setTimeout 2000 s2) = (x3, s3)"
    by (cases "getPuzzleId_v3_try env appId (setTimeout 2000 s2)")
  have e1: "events s1 = events s" using e [of s] t1 by simp
  have e2: "events s2 = events s @ [Slept 1000]"
    using e [of "setTimeout 1000 s1"] t2 e1 by simp
  have e3: "events s3 = events s @ [Slept 1000, Slept 2000]"
    using e [of "setTimeout 2000 s2"] t3 e2 by simp
  from assms e1 e2 e3 show ?thesis
    by (cases x1; cases x2; cases x3) (auto simp: getPuzzleId_v3_unroll t1 t2 t3)
qed

lemma events_getPuzzleImage_v3_try [simp]:
  "events (snd (getPuzzleImage_v3_try env puzzleId appId s)) = events s"
  unfolding getPuzzleImage_v3_try_def by (simp add: split_beta split: sum.split)

lemma getPuzzleImage_v3_unroll:
  "getPuzzleImage_v3 env puzzleId appId s =
     (case getPuzzleImage_v3_try env puzzleId appId s of
        (Inr v, s1) \<Rightarrow> (Inr v, s1)
      | (Inl e1, s1) \<Rightarrow>
     (case getPuzzleImage_v3_try env puzzleId appId (setTimeout 1000 s1) of
        (Inr v, s2) \<Rightarrow> (Inr v, s2)
      | (Inl e2, s2) \<Rightarrow>
     (case getPuzzleImage_v3_try env puzzleId appId (setTimeout 2000 s2) of
        (Inr v, s3) \<Rightarrow> (Inr v, s3)
      | (Inl e3, s3) \<Rightarrow> (Inl (Error (''Failed to get puzzle image after 3 attempts: '' @ message e3)), s3))))"
  by (simp add: getPuzzleImage_v3_def getPuzzleImage_v3_loop.simps MAX_RETRIES_def
      split: prod.split sum.split)

lemma getPuzzleImage_v3_waits:
  assumes "getPuzzleImage_v3 env puzzleId appId s = (r, s')"
  shows "events s' = events s \<or> events s' = events s @ [Slept 1000]
     \<or> events s' = events s @ [Slept 1000, Slept 2000]"
proof -
  have e: "events (snd (getPuzzleImage_v3_try env puzzleId appId t)) = events t" for t by simp
  obtain x1 s1 where t1: "getPuzzleImage_v3_try env puzzleId appId s = (x1, s1)"
    by (cases "getPuzzleImage_v3_try env puzzleId appId s")
  obtain x2 s2 where t2: "getPuzzleImage_v3_try env puzzleId appId (setTimeout 1000 s1) = (x2, s2)"
    by (cases "getPuzzleImage_v3_try env puzzleId appId (setTimeout 1000 s1)")
  obtain x3 s3 where t3: "getPuzzleImage_v3_try env puzzleId appId (setTimeout 2000 s2) = (x3, s3)"
    by (cases "getPuzzleImage_v3_try env puzzleId appId (setTimeout 2000 s2)")
  have e1: "events s1 = events s" using e [of s] t1 by simp
  have e2: "events s2 = events s @ [Slept 1000]"
    using e [of "setTimeout 1000 s1"] t2 e1 by simp
  have e3: "events s3 = events s @ [Slept 1000, Slept 2000]"
    using e [of "setTimeout 2000 s2"] t3 e2 by simp
  from assms e1 e2 e3 show ?thesis
    by (cases x1; cases x2; cases x3) (auto simp: getPuzzleImage_v3_unroll t1 t2 t3)
qed

lemma events_processCaptcha_v3_try [simp]:
  "events (snd (processCaptcha_v3_try env base64Image s)) = events s"
  unfolding processCaptcha_v3_try_def by (simp add: split_beta split: sum.split)

lemma processCaptcha_v3_unroll:
  "processCaptcha_v3 env base64Image s =
     (case processCaptcha_v3_try env base64Image s of
        (Inr v, s1) \<Rightarrow> (Inr v, s1)
      | (Inl e1, s1) \<Rightarrow>
     (case processCaptcha_v3_try env base64Image (setTimeout 2000 s1) of
        (Inr v, s2) \<Rightarrow> (Inr v, s2)
      | (Inl e2, s2) \<Rightarrow>
     (case processCaptcha_v3_try env base64Image (setTimeout 4000 s2) of
        (Inr v, s3) \<Rightarrow> (Inr v, s3)
      | (Inl e3, s3) \<Rightarrow> (Inl (Error (''Failed to solve captcha after 3 attempts: '' @ message e3)), s3))))"
  by (simp add: processCaptcha_v3_def processCaptcha_v3_loop.simps MAX_RETRIES_def
      split: prod.split sum.split)

lemma processCaptcha_v3_waits:
  assumes "processCaptcha_v3 env base64Image s = (r, s')"
  shows "events s' = events s \<or> events s' = events s @ [Slept 2000]
     \<or> events s' = events s @ [Slept 2000, Slept 4000]"
proof -
  have e: "events (snd (processCaptcha_v3_try env base64Image t)) = events t" for t by simp
  obtain x1 s1 where t1: "processCaptcha_v3_try env base64Image s = (x1, s1)"
    by (cases "processCaptcha_v3_try env base64Image s")
  obtain x2 s2 where t2: "processCaptcha_v3_try env base64Image (setTimeout 2000 s1) = (x2, s2)"
    by (cases "processCaptcha_v3_try env base64Image (setTimeout 2000 s1)")
  obtain x3 s3 where t3: "processCaptcha_v3_try env base64Image (setTimeout 4000 s2) = (x3, s3)"
    by (cases "processCaptcha_v3_try env base64Image (setTimeout 4000 s2)")
  have e1: "events s1 = events s" using e [of s] t1 by simp
  have e2: "events s2 = events s @ [Slept 2000]"
    using e [of "setTimeout 2000 s1"] t2 e1 by simp
  have e3: "events s3 = events s @ [Slept 2000, Slept 4000]"
    using e [of "setTimeout 4000 s2"] t3 e2 by simp
  from assms e1 e2 e3 show ?thesis
    by (cases x1; cases x2; cases x3) (auto simp: processCaptcha_v3_unroll t1 t2 t3)
qed

lemma events_getUserPoints_v3_try [simp]:
  "events (snd (getUserPoints_v3_try env token appId s)) = events s"
  unfolding getUserPoints_v3_try_def by (simp add: split_beta split: sum.split)

lemma getUserPoints_v3_unroll:
  "getUserPoints_v3 env token appId s =
     (case getUserPoints_v3_try env token appId s of
        (Inr v, s1) \<Rightarrow> (v, s1)
      | (Inl e1, s1) \<Rightarrow>
     (case getUserPoints_v3_try env token appId (setTimeout 1000 s1) of
        (Inr v, s2) \<Rightarrow> (v, s2)
      | (Inl e2, s2) \<Rightarrow>
     (case getUserPoints_v3_try env token appId (setTimeout 2000 s2) of
        (Inr v, s3) \<Rightarrow> (v, s3)
      | (Inl e3, s3) \<Rightarrow> (JNum 0, s3))))"
  by (simp add: getUserPoints_v3_def getUserPoints_v3_loop.simps MAX_RETRIES_def
      split: prod.split sum.split)

lemma getUserPoints_v3_waits:
  assumes "getUserPoints_v3 env token appId s = (r, s')"
  shows "events s' = events s \<or> events s' = events s @ [Slept 1000]
     \<or> events s' = events s @ [Slept 1000, Slept 2000]"
proof -
  have e: "events (snd (getUserPoints_v3_try env token appId t)) = events t" for t by simp
  obtain x1 s1 where t1: "getUserPoints_v3_try env token appId s = (x1, s1)"
    by (cases "getUserPoints_v3_try env token appId s")
  obtain x2 s2 where t2: "getUserPoints_v3_try env token appId (setTimeout 1000 s1) = (x2, s2)"
    by (cases "getUserPoints_v3_try env token appId (setTimeout 1000 s1)")
  obtain x3 s3 where t3: "getUserPoints_v3_try env token appId (setTimeout 2000 s2) = (x3, s3)"
    by (cases "getUserPoints_v3_try env token appId (setTimeout 2000 s2)")
  have e1: "events s1 = events s" using e [of s] t1 by simp
  have e2: "events s2 = events s @ [Slept 1000]"
    using e [of "setTimeout 1000 s1"] t2 e1 by simp
  have e3: "events s3 = events s @ [Slept 1000, Slept 2000]"
    using e [of "setTimeout 2000 s2"] t3 e2 by simp
  from assms e1 e2 e3 show ?thesis
    by (cases x1; cases x2; cases x3) (auto simp: getUserPoints_v3_unroll t1 t2 t3)
qed

lemma getPuzzleId_v3_error_waits:
  assumes "getPuzzleId_v3 env appId s = (Inl e, s')"
  shows "events s' = events s @ [Slept 1000, Slept 2000]"
proof -
  have e: "events (snd (getPuzzleId_v3_try env appId t)) = events t" for t by simp
  obtain x1 s1 where t1: "getPuzzleId_v3_try env appId s = (x1, s1)"
    by (cases "getPuzzleId_v3_try env appId s")
  obtain x2 s2 where t2: "getPuzzleId_v3_try env appId (setTimeout 1000 s1) = (x2, s2)"
    by (cases "getPuzzleId_v3_try env appId (setTimeout 1000 s1)")
  obtain x3 s3 where t3: "getPuzzleId_v3_try env appId (setTimeout 2000 s2) = (x3, s3)"
    by (cases "getPuzzleId_v3_try env appId (setTimeout 2000 s2)")
  have e1: "events s1 = events s" using e [of s] t1 by simp
  have e2: "events s2 = events s @ [Slept 1000]"
    using e [of "setTimeout 1000 s1"] t2 e1 by simp
  have e3: "events s3 = events s @ [Slept 1000, Slept 2000]"
    using e [of "setTimeout 2000 s2"] t3 e2 by simp
  from assms e1 e2 e3 show ?thesis
    by (cases x1; cases x2; cases x3) (auto simp: getPuzzleId_v3_unroll t1 t2 t3)
qed

lemma getPuzzleId_v3_exhausted:
  assumes "getPuzzleId_v3_try env appId s = (Inl e1, s1)"
    and "getPuzzleId_v3_try env appId (setTimeout 1000 s1) = (Inl e2, s2)"
    and "getPuzzleId_v3_try env appId (setTimeout 2000 s2) = (Inl e3, s3)"
  shows "getPuzzleId_v3 env appId s = (Inl (Error (''Failed to get puzzle ID after 3 attempts: '' @ message e3)), s3)"
  by (simp add: getPuzzleId_v3_unroll assms)

lemma getPuzzleImage_v3_error_waits:
  assumes "getPuzzleImage_v3 env puzzleId appId s = (Inl e, s')"
  shows "events s' = events s @ [Slept 1000, Slept 2000]"
proof -
  have e: "events (snd (getPuzzleImage_v3_try env puzzleId appId t)) = events t" for t by simp
  obtain x1 s1 where t1: "getPuzzleImage_v3_try env puzzleId appId s = (x1, s1)"
    by (cases "getPuzzleImage_v3_try env puzzleId appId s")
  obtain x2 s2 where t2: "getPuzzleImage_v3_try env puzzleId appId (setTimeout 1000 s1) = (x2, s2)"
    by (cases "getPuzzleImage_v3_try env puzzleId appId (setTimeout 1000 s1)")
  obtain x3 s3 where t3: "getPuzzleImage_v3_try env puzzleId appId (setTimeout 2000 s2) = (x3, s3)"
    by (cases "getPuzzleImage_v3_try env puzzleId appId (setTimeout 2000 s2)")
  have e1: "events s1 = events s" using e [of s] t1 by simp
  have e2: "events s2 = events s @ [Slept 1000]"
    using e [of "setTimeout 1000 s1"] t2 e1 by simp
  have e3: "events s3 = events s @ [Slept 1000, Slept 2000]"
    using e [of "setTimeout 2000 s2"] t3 e2 by simp
  from assms e1 e2 e3 show ?thesis
    by (cases x1; cases x2; cases x3) (auto simp: getPuzzleImage_v3_unroll t1 t2 t3)
qed

lemma getPuzzleImage_v3_exhausted:
  assumes "getPuzzleImage_v3_try env puzzleId appId s = (Inl e1, s1)"
    and "getPuzzleImage_v3_try env puzzleId appId (setTimeout 1000 s1) = (Inl e2, s2)"
    and "getPuzzleImage_v3_try env puzzleId appId (setTimeout 2000 s2) = (Inl e3, s3)"
  shows "getPuzzleImage_v3 env puzzleId appId s = (Inl (Error (''Failed to get puzzle image after 3 attempts: '' @ message e3)), s3)"
  by (simp add: getPuzzleImage_v3_unroll assms)

lemma processCaptcha_v3_error_waits:
  assumes "processCaptcha_v3 env base64Image s = (Inl e, s')"
  shows "events s' = events s @ [Slept 2000, Slept 4000]"
proof -
  have e: "events (snd (processCaptcha_v3_try env base64Image t)) = events t" for t by simp
  obtain x1 s1 where t1: "processCaptcha_v3_try env base64Image s = (x1, s1)"
    by (cases "processCaptcha_v3_try env base64Image s")
  obtain x2 s2 where t2: "processCaptcha_v3_try env base64Image (setTimeout 2000 s1) = (x2, s2)"
    by (cases "processCaptcha_v3_try env base64Image (setTimeout 2000 s1)")
  obtain x3 s3 where t3: "processCaptcha_v3_try env base64Image (setTimeout 4000 s2) = (x3, s3)"
    by (cases "processCaptcha_v3_try env base64Image (setTimeout 4000 s2)")
  have e1: "events s1 = events s" using e [of s] t1 by simp
  have e2: "events s2 = events s @ [Slept 2000]"
    using e [of "setTimeout 2000 s1"] t2 e1 by simp
  have e3: "events s3 = events s @ [Slept 2000, Slept 4000]"
    using e [of "setTimeout 4000 s2"] t3 e2 by simp
  from assms e1 e2 e3 show ?thesis
    by (cases x1; cases x2; cases x3) (auto simp: processCaptcha_v3_unroll t1 t2 t3)
qed

lemma processCaptcha_v3_exhausted:
  assumes "processCaptcha_v3_try env base64Image s = (Inl e1, s1)"
    and "processCaptcha_v3_try env base64Image (setTimeout 2000 s1) = (Inl e2, s2)"
    and "processCaptcha_v3_try env base64Image (setTimeout 4000 s2) = (Inl e3, s3)"
  shows "processCaptcha_v3 env base64Image s = (Inl (Error (''Failed to solve captcha after 3 attempts: '' @ message e3)), s3)"
  by (simp add: processCaptcha_v3_unroll assms)

lemma getUserPoints_v3_exhausted:
  assumes "getUserPoints_v3_try env token appId s = (Inl e1, s1)"
    and "getUserPoints_v3_try env token appId (setTimeout 1000 s1) = (Inl e2, s2)"
    and "getUserPoints_v3_try env token appId (setTimeout 2000 s2) = (Inl e3, s3)"
  shows "getUserPoints_v3 env token appId s = (JNum 0, s3)"
  by (simp add: getUserPoints_v3_unroll assms)

lemma processCaptcha_v1_once:
  assumes "processCaptcha_v1 env base64Image s = (r, s')"
  shows "events s' = events s \<or> events s' = events s @ [Wrote ''temp_captcha.png'']"
  using assms
  by (auto simp: processCaptcha_v1_def saveCaptchaImage_v1_def question_def solver_call_def
      split: if_splits option.splits sum.splits)

lemma getUserPoints_v1_once:
  "snd (getUserPoints_v1 env token appId s) = s\<lparr>tick := Suc (tick s)\<rparr>"
  by (simp add: getUserPoints_v1_def getUserPoints_v1_try_def fetch_def split_beta
      split: sum.split)

text \<open>
  C3, as the code has it.  In V3 each of \<^verbatim>\<open>getPuzzleId\<close>, \<^verbatim>\<open>getPuzzleImage\<close>,
  \<^verbatim>\<open>processCaptcha\<close> and \<^verbatim>\<open>getUserPoints\<close> makes at most three attempts: between two
  attempts it sleeps 1000 ms times the number of the failed attempt (2000 ms times that
  number in \<^verbatim>\<open>processCaptcha\<close>), it sleeps no more after the third, and these sleeps are
  all it adds to the trace.  When three attempts in a row fail, the first three throw an
  error that carries the message of the third failure, and they throw only then;
  \<^verbatim>\<open>getUserPoints\<close> returns 0 instead.  In V1 the captcha and the points query are
  attempted once, without a sleep.
\<close>

theorem sub_requests_three_attempts:
  "(getPuzzleId_v3 env appId s = (r, s') \<longrightarrow>
      (events s' = events s \<or> events s' = events s @ [Slept 1000]
        \<or> events s' = events s @ [Slept 1000, Slept 2000])
      \<and> (\<forall>e. r = Inl e \<longrightarrow> events s' = events s @ [Slept 1000, Slept 2000]))
   \<and> (getPuzzleId_v3_try env appId s = (Inl ea, sa)
      \<and> getPuzzleId_v3_try env appId (setTimeout 1000 sa) = (Inl eb, sb)
      \<and> getPuzzleId_v3_try env appId (setTimeout 2000 sb) = (Inl ec, sc) \<longrightarrow>
      getPuzzleId_v3 env appId s =
        (Inl (Error (''Failed to get puzzle ID after 3 attempts: '' @ message ec)), sc))
   \<and> (getPuzzleImage_v3 env puzzleId appId s = (r, s') \<longrightarrow>
      (events s' = events s \<or> events s' = events s @ [Slept 1000]
        \<or> events s' = events s @ [Slept 1000, Slept 2000])
      \<and> (\<forall>e. r = Inl e \<longrightarrow> events s' = events s @ [Slept 1000, Slept 2000]))
   \<and> (getPuzzleImage_v3_try env puzzleId appId s = (Inl ea, sa)
      \<and> getPuzzleImage_v3_try env puzzleId appId (setTimeout 1000 sa) = (Inl eb, sb)
      \<and> getPuzzleImage_v3_try env puzzleId appId (setTimeout 2000 sb) = (Inl ec, sc) \<longrightarrow>
      getPuzzleImage_v3 env puzzleId appId s =
        (Inl (Error (''Failed to get puzzle image after 3 attempts: '' @ message ec)), sc))
   \<and> (processCaptcha_v3 env base64Image s = (r, s') \<longrightarrow>
      (events s' = events s \<or> events s' = events s @ [Slept 2000]
        \<or> events s' = events s @ [Slept 2000, Slept 4000])
      \<and> (\<forall>e. r = Inl e \<longrightarrow> events s' = events s @ [Slept 2000, Slept 4000]))
   \<and> (processCaptcha_v3_try env base64Image s = (Inl ea, sa)
      \<and> processCaptcha_v3_try env base64Image (setTimeout 2000 sa) = (Inl eb, sb)
      \<and> processCaptcha_v3_try env base64Image (setTimeout 4000 sb) = (Inl ec, sc) \<longrightarrow>
      processCaptcha_v3 env base64Image s =
        (Inl (Error (''Failed to solve captcha after 3 attempts: '' @ message ec)), sc))
   \<and> (getUserPoints_v3 env token appId s = (v, s') \<longrightarrow>
      events s' = events s \<or> events s' = events s @ [Slept 1000]
        \<or> events s' = events s @ [Slept 1000, Slept 2000])
   \<and> (getUserPoints_v3_try env token appId s = (Inl ea, sa)
      \<and> getUserPoints_v3_try env token appId (setTimeout 1000 sa) = (Inl eb, sb)
      \<and> getUserPoints_v3_try env token appId (setTimeout 2000 sb) = (Inl ec, sc) \<longrightarrow>
      getUserPoints_v3 env token appId s = (JNum 0, sc))
   \<and> (processCaptcha_v1 env base64Image s = (r, s') \<longrightarrow>
      events s' = events s \<or> events s' = events s @ [Wrote ''temp_captcha.png''])
   \<and> snd (getUserPoints_v1 env token appId s) = s\<lparr>tick := Suc (tick s)\<rparr>"
proof -
  have a1: "getPuzzleId_v3 env appId s = (r, s') \<longrightarrow>
      (events s' = events s \<or> events s' = events s @ [Slept 1000]
        \<or> events s' = events s @ [Slept 1000, Slept 2000])
      \<and> (\<forall>e. r = Inl e \<longrightarrow> events s' = events s @ [Slept 1000, Slept 2000])"
    using getPuzzleId_v3_waits [of env appId s r s']
      getPuzzleId_v3_error_waits [of env appId s _ s'] by blast
  have a2: "getPuzzleId_v3_try env appId s = (Inl ea, sa)
      \<and> getPuzzleId_v3_try env appId (setTimeout 1000 sa) = (Inl eb, sb)
      \<and> getPuzzleId_v3_try env appId (setTimeout 2000 sb) = (Inl ec, sc) \<longrightarrow>
      getPuzzleId_v3 env appId s =
        (Inl (Error (''Failed to get puzzle ID after 3 attempts: '' @ message ec)), sc)"
    using getPuzzleId_v3_exhausted [of env appId s ea sa eb sb ec sc] by blast
  have b1: "getPuzzleImage_v3 env puzzleId appId s = (r, s') \<longrightarrow>
      (events s' = events s \<or> events s' = events s @ [Slept 1000]
        \<or> events s' = events s @ [Slept 1000, Slept 2000])
      \<and> (\<forall>e. r = Inl e \<longrightarrow> events s' = events s @ [Slept 1000, Slept 2000])"
    using getPuzzleImage_v3_waits [of env puzzleId appId s r s']
      getPuzzleImage_v3_error_waits [of env puzzleId appId s _ s'] by blast
  have b2: "getPuzzleImage_v3_try env puzzleId appId s = (Inl ea, sa)
      \<and> getPuzzleImage_v3_try env puzzleId appId (setTimeout 1000 sa) = (Inl eb, sb)
      \<and> getPuzzleImage_v3_try env puzzleId appId (setTimeout 2000 sb) = (Inl ec, sc) \<longrightarrow>
      getPuzzleImage_v3 env puzzleId appId s =
        (Inl (Error (''Failed to get puzzle image after 3 attempts: '' @ message ec)), sc)"
    using getPuzzleImage_v3_exhausted [of env puzzleId appId s ea sa eb sb ec sc] by blast
  have c1: "processCaptcha_v3 env base64Image s = (r, s') \<longrightarrow>
      (events s' = events s \<or> events s' = events s @ [Slept 2000]
        \<or> events s' = events s @ [Slept 2000, Slept 4000])
      \<and> (\<forall>e. r = Inl e \<longrightarrow> events s' = events s @ [Slept 2000, Slept 4000])"
    using processCaptcha_v3_waits [of env base64Image s r s']
      processCaptcha_v3_error_waits [of env base64Image s _ s'] by blast
  have c2: "processCaptcha_v3_try env base64Image s = (Inl ea, sa)
      \<and> processCaptcha_v3_try env base64Image (setTimeout 2000 sa) = (Inl eb, sb)
      \<and> processCaptcha_v3_try env base64Image (setTimeout 4000 sb) = (Inl ec, sc) \<longrightarrow>
      processCaptcha_v3 env base64Image s =
        (Inl (Error (''Failed to solve captcha after 3 attempts: '' @ message ec)), sc)"
    using processCaptcha_v3_exhausted [of env base64Image s ea sa eb sb ec sc] by blast
  have d1: "getUserPoints_v3 env token appId s = (v, s') \<longrightarrow>
      events s' = events s \<or> events s' = events s @ [Slept 1000]
        \<or> events s' = events s @ [Slept 1000, Slept 2000]"
    using getUserPoints_v3_waits [of env token appId s v s'] by blast
  have d2: "getUserPoints_v3_try env token appId s = (Inl ea, sa)
      \<and> getUserPoints_v3_try env token appId (setTimeout 1000 sa) = (Inl eb, sb)
      \<and> getUserPoints_v3_try env token appId (setTimeout 2000 sb) = (Inl ec, sc) \<longrightarrow>
      getUserPoints_v3 env token appId s = (JNum 0, sc)"
    using getUserPoints_v3_exhausted [of env token appId s ea sa eb sb ec sc] by blast
  have f1: "processCaptcha_v1 env base64Image s = (r, s') \<longrightarrow>
      events s' = events s \<or> events s' = events s @ [Wrote ''temp_captcha.png'']"
    using processCaptcha_v1_once [of env base64Image s r s'] by blast
  have f2: "snd (getUserPoints_v1 env token appId s) = s\<lparr>tick := Suc (tick s)\<rparr>"
    by (rule getUserPoints_v1_once)
  show ?thesis
    by (intro conjI) (rule a1 a2 b1 b2 c1 c2 d1 d2 f1 f2)+
qed

text \<open>
  With the network down, the points query of V3 makes its three attempts, sleeps 1000 and
  2000 ms between them, and returns 0: the failure of the third attempt does not reach
  the caller.
\<close>

theorem getUserPoints_v3_swallows_third_failure:
  "getUserPoints_v3 env_down (JStr ''tok'') ''67'' world0 =
     (JNum 0, world0\<lparr>tick := 3, events := [Slept 1000, Slept 2000]\<rparr>)"
  by (simp add: getUserPoints_v3_unroll getUserPoints_v3_try_def getProxyAgent_def fetch_def
      setTimeout_def env_down_def world0_def)

theorem sub_requests_three_attempts_witness:
  "getPuzzleId_v3 env_down ''67'' world0 =
     (Inl (Error ''Failed to get puzzle ID after 3 attempts: ECONNREFUSED''),
      world0\<lparr>tick := 3, events := [Slept 1000, Slept 2000]\<rparr>)
   \<and> getPuzzleImage_v3 env_down (JStr ''p'') ''67'' world0 =
     (Inl (Error ''Failed to get puzzle image after 3 attempts: ECONNREFUSED''),
      world0\<lparr>tick := 3, events := [Slept 1000, Slept 2000]\<rparr>)
   \<and> processCaptcha_v3 env_down (JStr ''img'') world0 =
     (Inl (Error ''Failed to solve captcha after 3 attempts: no solver''),
      world0\<lparr>tick := 3, events := [Slept 2000, Slept 4000]\<rparr>)
   \<and> getUserPoints_v3 env_down (JStr ''tok'') ''67'' world0 =
     (JNum 0, world0\<lparr>tick := 3, events := [Slept 1000, Slept 2000]\<rparr>)
   \<and> events (world0\<lparr>tick := 3, events := [Slept 1000, Slept 2000]\<rparr>) =
       events world0 @ [Slept 1000, Slept 2000]"
proof -
  let ?w1 = "world0\<lparr>tick := 1\<rparr>"
  let ?w2 = "world0\<lparr>tick := 2, events := [Slept 1000]\<rparr>"
  let ?w3 = "world0\<lparr>tick := 3, events := [Slept 1000, Slept 2000]\<rparr>"
  let ?c2 = "world0\<lparr>tick := 2, events := [Slept 2000]\<rparr>"
  let ?c3 = "world0\<lparr>tick := 3, events := [Slept 2000, Slept 4000]\<rparr>"
  let ?e = "Error ''ECONNREFUSED''"
  let ?n = "Error ''no solver''"
  note defs = getProxyAgent_def fetch_def solver_call_def setTimeout_def env_down_def world0_def
  note inst = sub_requests_three_attempts [where env = env_down and appId = "''67''"
      and puzzleId = "JStr ''p''" and base64Image = "JStr ''img''" and token = "JStr ''tok''"
      and s = world0 and sa = ?w1 and ea = ?e and eb = ?e and ec = ?e]
  have a: "getPuzzleId_v3_try env_down ''67'' world0 = (Inl ?e, ?w1)
      \<and> getPuzzleId_v3_try env_down ''67'' (setTimeout 1000 ?w1) = (Inl ?e, ?w2)
      \<and> getPuzzleId_v3_try env_down ''67'' (setTimeout 2000 ?w2) = (Inl ?e, ?w3)"
    by (simp add: getPuzzleId_v3_try_def defs)
  have b: "getPuzzleImage_v3_try env_down (JStr ''p'') ''67'' world0 = (Inl ?e, ?w1)
      \<and> getPuzzleImage_v3_try env_down (JStr ''p'') ''67'' (setTimeout 1000 ?w1) = (Inl ?e, ?w2)
      \<and> getPuzzleImage_v3_try env_down (JStr ''p'') ''67'' (setTimeout 2000 ?w2) = (Inl ?e, ?w3)"
    by (simp add: getPuzzleImage_v3_try_def defs)
  have d: "getUserPoints_v3_try env_down (JStr ''tok'') ''67'' world0 = (Inl ?e, ?w1)
      \<and> getUserPoints_v3_try env_down (JStr ''tok'') ''67'' (setTimeout 1000 ?w1) = (Inl ?e, ?w2)
      \<and> getUserPoints_v3_try env_down (JStr ''tok'') ''67'' (setTimeout 2000 ?w2) = (Inl ?e, ?w3)"
    by (simp add: getUserPoints_v3_try_def defs)
  have c: "processCaptcha_v3_try env_down (JStr ''img'') world0 = (Inl ?n, ?w1)
      \<and> processCaptcha_v3_try env_down (JStr ''img'') (setTimeout 2000 ?w1) = (Inl ?n, ?c2)
      \<and> processCaptcha_v3_try env_down (JStr ''img'') (setTimeout 4000 ?c2) = (Inl ?n, ?c3)"
    by (simp add: processCaptcha_v3_try_def defs)
  have A: "getPuzzleId_v3 env_down ''67'' world0 =
     (Inl (Error (''Failed to get puzzle ID after 3 attempts: '' @ message ?e)), ?w3)"
    using inst [where sb = ?w2 and sc = ?w3, THEN conjunct2, THEN conjunct1] a by blast
  have B: "getPuzzleImage_v3 env_down (JStr ''p'') ''67'' world0 =
     (Inl (Error (''Failed to get puzzle image after 3 attempts: '' @ message ?e)), ?w3)"
    using inst [where sb = ?w2 and sc = ?w3, THEN conjunct2, THEN conjunct2, THEN conjunct2,
        THEN conjunct1] b by blast
  have D: "getUserPoints_v3 env_down (JStr ''tok'') ''67'' world0 = (JNum 0, ?w3)"
    using inst [where sb = ?w2 and sc = ?w3, THEN conjunct2, THEN conjunct2, THEN conjunct2,
        THEN conjunct2, THEN conjunct2, THEN conjunct2, THEN conjunct2, THEN conjunct1] d
    by blast
  have C: "processCaptcha_v3 env_down (JStr ''img'') world0 =
     (Inl (Error (''Failed to solve captcha after 3 attempts: '' @ message ?n)), ?c3)"
    using sub_requests_three_attempts [where env = env_down and base64Image = "JStr ''img''"
        and s = world0 and sa = ?w1 and ea = ?n and eb = ?n and ec = ?n
        and sb = ?c2 and sc = ?c3, THEN conjunct2, THEN conjunct2, THEN conjunct2,
        THEN conjunct2, THEN conjunct2, THEN conjunct1] c
    by blast
  have E: "events ?w3 = events world0 @ [Slept 1000, Slept 2000]"
    using inst [where r = "Inl (Error (''Failed to get puzzle ID after 3 attempts: '' @ message ?e))"
        and s' = ?w3, THEN conjunct1] A by blast
  from A B C D E show ?thesis by simp
qed

subsection \<open>A failed points query does not fail the login\<close>

lemma getUserPoints_v1_failure:
  assumes "(\<exists>msg. net env (tick s) = Inl msg)
     \<or> (\<exists>r. net env (tick s) = Inr r
           \<and> (\<not> is_ok r \<or> (\<exists>msg. body r = Inl msg)
                \<or> (\<exists>data e. body r = Inr data \<and> points_of_data data = Inl e)))"
  shows "getUserPoints_v1 env token appId s = (JNum 0, s\<lparr>tick := Suc (tick s)\<rparr>)"
  using assms
  by (auto simp: getUserPoints_v1_def getUserPoints_v1_try_def fetch_def response_json_def)

lemma loginAccount_v1_token_success:
  assumes "generateAppId env s = (appId, s0)"
    and "loginAccount_v1_token env email password appId s0 = (Inr token, s4)"
    and "fs env (Suc (tick s4)) = None"
  shows "loginAccount_v1 env email password s =
     (Inr (JBool True),
      s4\<lparr>tick := tick s4 + 2,
          events := events s4 @ [Appended ''successful_logins.txt''
                                   (email @ '':'' @ to_string token @ [CHR 0x0A])]\<rparr>)"
proof -
  obtain points s5 where p: "getUserPoints_v1 env token appId s4 = (points, s5)"
    by (cases "getUserPoints_v1 env token appId s4")
  then have s5: "s5 = s4\<lparr>tick := Suc (tick s4)\<rparr>"
    using getUserPoints_v1_once [of env token appId s4] by simp
  show ?thesis
    by (simp add: loginAccount_v1_def loginAccount_v1_try_def assms p s5 appendFile_def)
qed

lemma string_of_nat_0 [simp]: "string_of_nat 0 = ''0''"
  by (simp add: string_of_nat.simps)

lemma loginAccount_v3_token_success:
  assumes "generateAppId env s = (appId, s0)"
    and "loginAccount_v3_token env email password appId s0 = (Inr token, s5)"
    and "getUserPoints_v3_try env token appId s5 = (Inl ea, sa)"
    and "getUserPoints_v3_try env token appId (setTimeout 1000 sa) = (Inl eb, sb)"
    and "getUserPoints_v3_try env token appId (setTimeout 2000 sb) = (Inl ec, sc)"
    and "fs env (tick sc) = None"
  shows "loginAccount_v3 env email password s =
     (Inr (JBool True),
      sc\<lparr>tick := Suc (tick sc),
          events := events sc @ [Appended ''successful_logins.txt''
               (email @ '':'' @ password @ '':'' @ to_string token @ '':0'' @ [CHR 0x0A])]\<rparr>)"
proof -
  have p: "getUserPoints_v3 env token appId s5 = (JNum 0, sc)"
    using assms(3-5) by (rule getUserPoints_v3_exhausted)
  show ?thesis
    unfolding loginAccount_v3_def
    by (subst loginAccount_v3_loop.simps)
       (simp add: LOGIN_RETRIES_def loginAccount_v3_try_def assms(1,2,6) p appendFile_def)
qed

text \<open>
  C6.  When the points query fails (the request is rejected, the status is not a
  success, the body does not parse, or reading the body throws), \<^verbatim>\<open>getUserPoints\<close>
  returns 0 and throws nothing.  Once \<^verbatim>\<open>loginAccount\<close> holds a token, it appends the
  account to \<^verbatim>\<open>successful_logins.txt\<close> and returns \<^verbatim>\<open>true\<close> whatever the points query
  did (V1; the file system accepting the line); in V3, where the line holds the points,
  three failed attempts of the points query give the line with 0 points.
\<close>

theorem points_failure_keeps_success:
  "((\<exists>msg. net env (tick t) = Inl msg)
     \<or> (\<exists>r. net env (tick t) = Inr r
           \<and> (\<not> is_ok r \<or> (\<exists>msg. body r = Inl msg)
                \<or> (\<exists>data e. body r = Inr data \<and> points_of_data data = Inl e))) \<longrightarrow>
      getUserPoints_v1 env token appId t = (JNum 0, t\<lparr>tick := Suc (tick t)\<rparr>))
   \<and> (generateAppId env s = (appId, s0)
      \<and> loginAccount_v1_token env email password appId s0 = (Inr token, t)
      \<and> fs env (Suc (tick t)) = None \<longrightarrow>
      loginAccount_v1 env email password s =
        (Inr (JBool True),
         t\<lparr>tick := tick t + 2,
           events := events t @ [Appended ''successful_logins.txt''
                                  (email @ '':'' @ to_string token @ [CHR 0x0A])]\<rparr>))
   \<and> (generateAppId env s = (appId, s0)
      \<and> loginAccount_v3_token env email password appId s0 = (Inr token, t)
      \<and> getUserPoints_v3_try env token appId t = (Inl ea, sa)
      \<and> getUserPoints_v3_try env token appId (setTimeout 1000 sa) = (Inl eb, sb)
      \<and> getUserPoints_v3_try env token appId (setTimeout 2000 sb) = (Inl ec, sc)
      \<and> fs env (tick sc) = None \<longrightarrow>
      loginAccount_v3 env email password s =
        (Inr (JBool True),
         sc\<lparr>tick := Suc (tick sc),
            events := events sc @ [Appended ''successful_logins.txt''
               (email @ '':'' @ password @ '':'' @ to_string token @ '':0'' @ [CHR 0x0A])]\<rparr>))"
proof -
  have a: "(\<exists>msg. net env (tick t) = Inl msg)
     \<or> (\<exists>r. net env (tick t) = Inr r
           \<and> (\<not> is_ok r \<or> (\<exists>msg. body r = Inl msg)
                \<or> (\<exists>data e. body r = Inr data \<and> points_of_data data = Inl e))) \<longrightarrow>
      getUserPoints_v1 env token appId t = (JNum 0, t\<lparr>tick := Suc (tick t)\<rparr>)"
    using getUserPoints_v1_failure [of env t token appId] by blast
  have b: "generateAppId env s = (appId, s0)
      \<and> loginAccount_v1_token env email password appId s0 = (Inr token, t)
      \<and> fs env (Suc (tick t)) = None \<longrightarrow>
      loginAccount_v1 env email password s =
        (Inr (JBool True),
         t\<lparr>tick := tick t + 2,
           events := events t @ [Appended ''successful_logins.txt''
                                  (email @ '':'' @ to_string token @ [CHR 0x0A])]\<rparr>)"
    using loginAccount_v1_token_success [of env s appId s0 email password token t] by blast
  have c: "generateAppId env s = (appId, s0)
      \<and> loginAccount_v3_token env email password appId s0 = (Inr token, t)
      \<and> getUserPoints_v3_try env token appId t = (Inl ea, sa)
      \<and> getUserPoints_v3_try env token appId (setTimeout 1000 sa) = (Inl eb, sb)
      \<and> getUserPoints_v3_try env token appId (setTimeout 2000 sb) = (Inl ec, sc)
      \<and> fs env (tick sc) = None \<longrightarrow>
      loginAccount_v3 env email password s =
        (Inr (JBool True),
         sc\<lparr>tick := Suc (tick sc),
            events := events sc @ [Appended ''successful_logins.txt''
               (email @ '':'' @ password @ '':'' @ to_string token @ '':0'' @ [CHR 0x0A])]\<rparr>)"
    using loginAccount_v3_token_success [of env s appId s0 email password token t ea sa eb sb ec sc]
    by blast
  show ?thesis by (intro conjI) (rule a b c)+
qed

theorem points_failure_keeps_success_witness:
  "getUserPoints_v1 env_points_down (JStr ''tok'') ''678888888888888888888888''
       (world0\<lparr>tick := 26\<rparr>) = (JNum 0, world0\<lparr>tick := 27\<rparr>)
   \<and> loginAccount_v1 env_points_down ''a@x.io'' ''pw'' world0 =
       (Inr (JBool True),
        world0\<lparr>tick := 28,
          events := [Appended ''successful_logins.txt'' (''a@x.io:tok'' @ [CHR 0x0A])]\<rparr>)
   \<and> loginAccount_v3 env_points_down ''a@x.io'' ''pw'' world0 =
       (Inr (JBool True),
        world0\<lparr>tick := 30,
          events := [Slept 1000, Slept 2000,
                     Appended ''successful_logins.txt'' (''a@x.io:pw:tok:0'' @ [CHR 0x0A])]\<rparr>)"
proof -
  let ?env = env_points_down
  let ?id = "''678888888888888888888888''"
  let ?t = "world0\<lparr>tick := 26\<rparr>"
  let ?e = "Error ''ECONNRESET''"
  let ?sa = "world0\<lparr>tick := 27\<rparr>"
  let ?sb = "world0\<lparr>tick := 28, events := [Slept 1000]\<rparr>"
  let ?sc = "world0\<lparr>tick := 29, events := [Slept 1000, Slept 2000]\<rparr>"
  note defs = env_points_down_def env_down_def world0_def fetch_def solver_call_def
    getProxyAgent_def setTimeout_def response_json_def is_ok_def MAX_RETRIES_def
  note inst = points_failure_keeps_success [where env = ?env and s = world0 and appId = ?id
      and ?s0.0 = "world0\<lparr>tick := 22\<rparr>" and email = "''a@x.io''" and password = "''pw''"
      and token = "JStr ''tok''" and t = ?t and ea = ?e and eb = ?e and ec = ?e
      and sa = ?sa and sb = ?sb and sc = ?sc]
  have g: "generateAppId ?env world0 = (?id, world0\<lparr>tick := 22\<rparr>)"
    by (simp add: generateAppId_def generateAppId_loop.simps env_points_down_def env_down_def
        world0_def hex_at_def hexDigits_def)
  have n: "\<exists>msg. net ?env (tick ?t) = Inl msg"
    by (simp add: defs)
  have k1: "loginAccount_v1_token ?env ''a@x.io'' ''pw'' ?id (world0\<lparr>tick := 22\<rparr>)
      = (Inr (JStr ''tok''), ?t)"
    by (simp add: loginAccount_v1_token_def getPuzzleId_v1_def getPuzzleId_v1_loop.simps
        getPuzzleId_v1_try_def getPuzzleImage_v1_def getPuzzleImage_v1_loop.simps
        getPuzzleImage_v1_try_def processCaptcha_v1_def defs)
  have k3: "loginAccount_v3_token ?env ''a@x.io'' ''pw'' ?id (world0\<lparr>tick := 22\<rparr>)
      = (Inr (JStr ''tok''), ?t)"
    by (simp add: loginAccount_v3_token_def getPuzzleId_v3_unroll getPuzzleId_v3_try_def
        getPuzzleImage_v3_unroll getPuzzleImage_v3_try_def processCaptcha_v3_unroll
        processCaptcha_v3_try_def defs)
  have p3: "getUserPoints_v3_try ?env (JStr ''tok'') ?id ?t = (Inl ?e, ?sa)
      \<and> getUserPoints_v3_try ?env (JStr ''tok'') ?id (setTimeout 1000 ?sa) = (Inl ?e, ?sb)
      \<and> getUserPoints_v3_try ?env (JStr ''tok'') ?id (setTimeout 2000 ?sb) = (Inl ?e, ?sc)"
    by (simp add: getUserPoints_v3_try_def defs)
  have f1: "fs ?env (Suc (tick ?t)) = None" and f3: "fs ?env (tick ?sc) = None"
    by (simp_all add: defs)
  have A: "getUserPoints_v1 ?env (JStr ''tok'') ?id ?t = (JNum 0, ?t\<lparr>tick := Suc (tick ?t)\<rparr>)"
    using inst [THEN conjunct1] n by blast
  have B: "loginAccount_v1 ?env ''a@x.io'' ''pw'' world0 =
        (Inr (JBool True),
         ?t\<lparr>tick := tick ?t + 2,
           events := events ?t @ [Appended ''successful_logins.txt''
                                  (''a@x.io'' @ '':'' @ to_string (JStr ''tok'') @ [CHR 0x0A])]\<rparr>)"
    using inst [THEN conjunct2, THEN conjunct1] g k1 f1 by blast
  have C: "loginAccount_v3 ?env ''a@x.io'' ''pw'' world0 =
        (Inr (JBool True),
         ?sc\<lparr>tick := Suc (tick ?sc),
            events := events ?sc @ [Appended ''successful_logins.txt''
               (''a@x.io'' @ '':'' @ ''pw'' @ '':'' @ to_string (JStr ''tok'') @ '':0''
                @ [CHR 0x0A])]\<rparr>)"
    using inst [THEN conjunct2, THEN conjunct2] g k3 p3 f3 by blast
  from A B C show ?thesis by (simp add: world0_def)
qed

subsection \<open>One terminal record per account\<close>

lemma inner_not_record: "list_all inner es \<Longrightarrow> list_all (\<lambda>e. \<not> is_record e) es"
proof (induction es)
  case Nil
  show ?case by simp
next
  case (Cons e es)
  then show ?case by (cases e) simp_all
qed

lemma quiet_records: "quiet s s' \<Longrightarrow> records s' = records s"
proof -
  assume "quiet s s'"
  then obtain es where e: "events s' = events s @ es" and i: "list_all inner es"
    by (auto simp: quiet_def)
  from i have "list_all (\<lambda>e. \<not> is_record e) es" by (rule inner_not_record)
  then have "filter is_record es = []" by (simp add: list_all_iff)
  with e show ?thesis by (simp add: records_def)
qed

lemma terminal_records:
  "terminal s s' rec \<Longrightarrow> is_record rec \<Longrightarrow> records s' = records s @ [rec]"
  by (auto simp: terminal_def records_def list_all_iff)

lemma quiet_terminal:
  assumes "quiet s s1" and "events s' = events s1 @ [rec]"
    and "telegramBot s' = telegramBot s1" and "telegramChatId s' = telegramChatId s1"
  shows "terminal s s' rec"
proof -
  from assms(1) obtain es where e: "events s1 = events s @ es" and i: "list_all inner es"
    and t: "telegramBot s1 = telegramBot s" "telegramChatId s1 = telegramChatId s"
    by (auto simp: quiet_def)
  from i have "list_all (\<lambda>e. \<not> is_record e) es" by (rule inner_not_record)
  with e t assms(2-4) show ?thesis by (auto simp: terminal_def)
qed

lemma terminal_after_quiet:
  assumes "quiet s s1" and "terminal s1 s' rec"
  shows "terminal s s' rec"
proof -
  from assms(1) obtain es where e: "events s1 = events s @ es" and i: "list_all inner es"
    and t: "telegramBot s1 = telegramBot s" "telegramChatId s1 = telegramChatId s"
    by (auto simp: quiet_def)
  from i have n: "list_all (\<lambda>e. \<not> is_record e) es" by (rule inner_not_record)
  from assms(2) obtain pre where p: "events s' = events s1 @ pre @ [rec]"
    and q: "list_all (\<lambda>e. \<not> is_record e) pre"
    and u: "telegramBot s' = telegramBot s1" "telegramChatId s' = telegramChatId s1"
    by (auto simp: terminal_def)
  have "events s' = events s @ (es @ pre) @ [rec]" using e p by simp
  moreover have "list_all (\<lambda>e. \<not> is_record e) (es @ pre)" using n q by simp
  ultimately show ?thesis using t u unfolding terminal_def by metis
qed

lemma appendFile_cases:
  "(fs env (tick s) = None \<and> appendFile env file line s =
       (Inr (), s\<lparr>tick := Suc (tick s), events := events s @ [Appended file line]\<rparr>))
   \<or> (\<exists>msg. fs env (tick s) = Some msg
         \<and> appendFile env file line s = (Inl (Error msg), s\<lparr>tick := Suc (tick s)\<rparr>))"
  by (cases "fs env (tick s)") (simp_all add: appendFile_def)

lemma loginAccount_v3_try_outcome:
  assumes "loginAccount_v3_try env email password appId s = (r, s')"
  shows "(r = Inr (JBool True) \<and> (\<exists>rest. terminal s s' (Appended ''successful_logins.txt'' (email @ '':'' @ rest))))
     \<or> ((\<exists>e. r = Inl e) \<and> quiet s s')"
proof -
  obtain rt s5 where k: "loginAccount_v3_token env email password appId s = (rt, s5)"
    by (cases "loginAccount_v3_token env email password appId s")
  have "quiet s (snd (loginAccount_v3_token env email password appId s))"
    by (rule quiet_loginAccount_v3_token) (rule quiet_refl)
  then have q5: "quiet s s5" by (simp add: k)
  show ?thesis
  proof (cases rt)
    case (Inl e)
    with assms k q5 show ?thesis by (auto simp: loginAccount_v3_try_def)
  next
    case (Inr token)
    obtain points s6 where p: "getUserPoints_v3 env token appId s5 = (points, s6)"
      by (cases "getUserPoints_v3 env token appId s5")
    have "quiet s (snd (getUserPoints_v3 env token appId s5))"
      using q5 by (rule quiet_getUserPoints_v3)
    then have q6: "quiet s s6" by (simp add: p)
    let ?line = "email @ '':'' @ password @ '':'' @ to_string token @ '':''
              @ to_string points @ [CHR 0x0A]"
    from appendFile_cases [of env s6 "''successful_logins.txt''" ?line] show ?thesis
    proof
      assume a: "fs env (tick s6) = None \<and> appendFile env ''successful_logins.txt'' ?line s6 =
        (Inr (), s6\<lparr>tick := Suc (tick s6),
                   events := events s6 @ [Appended ''successful_logins.txt'' ?line]\<rparr>)"
      then have r: "r = Inr (JBool True)"
        and s': "s' = s6\<lparr>tick := Suc (tick s6),
                   events := events s6 @ [Appended ''successful_logins.txt'' ?line]\<rparr>"
        using assms k Inr p by (simp_all add: loginAccount_v3_try_def)
      have "terminal s s' (Appended ''successful_logins.txt'' ?line)"
        using q6 by (rule quiet_terminal) (simp_all add: s')
      with r show ?thesis by blast
    next
      assume "\<exists>msg. fs env (tick s6) = Some msg
         \<and> appendFile env ''successful_logins.txt'' ?line s6 =
             (Inl (Error msg), s6\<lparr>tick := Suc (tick s6)\<rparr>)"
      then obtain msg where a: "appendFile env ''successful_logins.txt'' ?line s6 =
             (Inl (Error msg), s6\<lparr>tick := Suc (tick s6)\<rparr>)" by blast
      then have r: "r = Inl (Error msg)" and s': "s' = s6\<lparr>tick := Suc (tick s6)\<rparr>"
        using assms k Inr p by (simp_all add: loginAccount_v3_try_def)
      have "quiet s s'" unfolding s' using q6 by (rule quiet_tick)
      with r show ?thesis by blast
    qed
  qed
qed

lemma loginAccount_v3_loop_outcome:
  "loginAccount_v3_loop env email password k s = (r, s') \<Longrightarrow> k \<le> LOGIN_RETRIES \<Longrightarrow>
     (r = Inr (JBool True) \<and> (\<exists>rest. terminal s s' (Appended ''successful_logins.txt'' (email @ '':'' @ rest))))
   \<or> (r = Inr (JBool False)
        \<and> terminal s s' (Appended ''failed_logins.txt'' (email @ '':'' @ password @ [CHR 0x0A])))
   \<or> ((\<exists>i msg. r = Inl (Error msg) \<and> fs env i = Some msg) \<and> quiet s s')"
proof (induction env email password k s arbitrary: r s' rule: loginAccount_v3_loop.induct)
  case (1 env email password k s)
  let ?fail = "Appended ''failed_logins.txt'' (email @ '':'' @ password @ [CHR 0x0A])"
  obtain appId s0 where g: "generateAppId env s = (appId, s0)"
    by (cases "generateAppId env s")
  have "quiet s (snd (generateAppId env s))"
    by (rule quiet_generateAppId) (rule quiet_refl)
  then have q0: "quiet s s0" by (simp add: g)
  obtain x s1 where t: "loginAccount_v3_try env email password appId s0 = (x, s1)"
    by (cases "loginAccount_v3_try env email password appId s0")
  note o = loginAccount_v3_try_outcome [OF t]
  have run: "loginAccount_v3_loop env email password k s =
      (case x of
         Inr v \<Rightarrow> (Inr v, s1)
       | Inl e \<Rightarrow>
           if k = LOGIN_RETRIES then
             (case appendFile env ''failed_logins.txt'' (email @ '':'' @ password @ [CHR 0x0A]) s1 of
                (Inl e', s2) \<Rightarrow> (Inl e', s2)
              | (Inr u, s2) \<Rightarrow> (Inr (JBool False), s2))
           else loginAccount_v3_loop env email password (k + 1)
                  (setTimeout (5000 * of_nat k) s1))"
    using "1.prems"(2) by (subst loginAccount_v3_loop.simps) (simp add: g t)
  show ?case
  proof (cases x)
    case (Inr v)
    with o obtain rest where "v = JBool True"
      and "terminal s0 s1 (Appended ''successful_logins.txt'' (email @ '':'' @ rest))" by auto
    moreover from this q0 have "terminal s s1 (Appended ''successful_logins.txt'' (email @ '':'' @ rest))"
      using terminal_after_quiet by blast
    moreover have "r = Inr v" "s' = s1" using run "1.prems"(1) Inr by simp_all
    ultimately show ?thesis by blast
  next
    case (Inl e)
    with o have "quiet s0 s1" by auto
    with q0 have q1: "quiet s s1" by (rule quiet_trans)
    show ?thesis
    proof (cases "k = LOGIN_RETRIES")
      case True
      from appendFile_cases [of env s1 "''failed_logins.txt''" "email @ '':'' @ password @ [CHR 0x0A]"]
      show ?thesis
      proof
        assume a: "fs env (tick s1) = None
          \<and> appendFile env ''failed_logins.txt'' (email @ '':'' @ password @ [CHR 0x0A]) s1 =
            (Inr (), s1\<lparr>tick := Suc (tick s1), events := events s1 @ [?fail]\<rparr>)"
        then have r: "r = Inr (JBool False)"
          and s': "s' = s1\<lparr>tick := Suc (tick s1), events := events s1 @ [?fail]\<rparr>"
          using run "1.prems"(1) Inl True by simp_all
        have "terminal s s' ?fail"
          using q1 by (rule quiet_terminal) (simp_all add: s')
        with r show ?thesis by blast
      next
        assume "\<exists>msg. fs env (tick s1) = Some msg
          \<and> appendFile env ''failed_logins.txt'' (email @ '':'' @ password @ [CHR 0x0A]) s1 =
            (Inl (Error msg), s1\<lparr>tick := Suc (tick s1)\<rparr>)"
        then obtain msg where f: "fs env (tick s1) = Some msg"
          and a: "appendFile env ''failed_logins.txt'' (email @ '':'' @ password @ [CHR 0x0A]) s1 =
            (Inl (Error msg), s1\<lparr>tick := Suc (tick s1)\<rparr>)" by blast
        then have r: "r = Inl (Error msg)" and s': "s' = s1\<lparr>tick := Suc (tick s1)\<rparr>"
          using run "1.prems"(1) Inl True by simp_all
        have "quiet s s'" unfolding s' using q1 by (rule quiet_tick)
        with r f show ?thesis by blast
      qed
    next
      case False
      let ?s2 = "setTimeout (5000 * of_nat k) s1"
      have q2: "quiet s ?s2" using q1 by (rule quiet_setTimeout)
      have rec: "loginAccount_v3_loop env email password (k + 1) ?s2 = (r, s')"
        using run "1.prems"(1) Inl False by simp
      have le: "k + 1 \<le> LOGIN_RETRIES" using "1.prems"(2) False by simp
      from "1.IH" [OF "1.prems"(2) g [symmetric] t [symmetric] Inl False rec le]
      show ?thesis
        using q2 terminal_after_quiet quiet_trans by blast
    qed
  qed
qed

lemma loginAccount_v3_outcome:
  assumes "loginAccount_v3 env email password s = (r, s')"
  shows "(r = Inr (JBool True) \<and> (\<exists>rest. terminal s s' (Appended ''successful_logins.txt'' (email @ '':'' @ rest))))
   \<or> (r = Inr (JBool False)
        \<and> terminal s s' (Appended ''failed_logins.txt'' (email @ '':'' @ password @ [CHR 0x0A])))
   \<or> ((\<exists>i msg. r = Inl (Error msg) \<and> fs env i = Some msg) \<and> quiet s s')"
  using assms unfolding loginAccount_v3_def
  by (rule loginAccount_v3_loop_outcome) (simp add: LOGIN_RETRIES_def)

lemma loginAccount_v1_try_outcome:
  assumes "loginAccount_v1_try env email password appId s = (r, s')"
  shows "(r = Inr (JBool True) \<and> (\<exists>rest. terminal s s' (Appended ''successful_logins.txt'' (email @ '':'' @ rest))))
     \<or> ((\<exists>e. r = Inl e) \<and> quiet s s')"
proof -
  obtain rt s5 where k: "loginAccount_v1_token env email password appId s = (rt, s5)"
    by (cases "loginAccount_v1_token env email password appId s")
  have "quiet s (snd (loginAccount_v1_token env email password appId s))"
    by (rule quiet_loginAccount_v1_token) (rule quiet_refl)
  then have q5: "quiet s s5" by (simp add: k)
  show ?thesis
  proof (cases rt)
    case (Inl e)
    with assms k q5 show ?thesis by (auto simp: loginAccount_v1_try_def)
  next
    case (Inr token)
    obtain points s6 where p: "getUserPoints_v1 env token appId s5 = (points, s6)"
      by (cases "getUserPoints_v1 env token appId s5")
    have "quiet s (snd (getUserPoints_v1 env token appId s5))"
      using q5 by (rule quiet_getUserPoints_v1)
    then have q6: "quiet s s6" by (simp add: p)
    let ?line = "email @ '':'' @ to_string token @ [CHR 0x0A]"
    from appendFile_cases [of env s6 "''successful_logins.txt''" ?line] show ?thesis
    proof
      assume a: "fs env (tick s6) = None \<and> appendFile env ''successful_logins.txt'' ?line s6 =
        (Inr (), s6\<lparr>tick := Suc (tick s6),
                   events := events s6 @ [Appended ''successful_logins.txt'' ?line]\<rparr>)"
      then have r: "r = Inr (JBool True)"
        and s': "s' = s6\<lparr>tick := Suc (tick s6),
                   events := events s6 @ [Appended ''successful_logins.txt'' ?line]\<rparr>"
        using assms k Inr p by (simp_all add: loginAccount_v1_try_def)
      have "terminal s s' (Appended ''successful_logins.txt'' ?line)"
        using q6 by (rule quiet_terminal) (simp_all add: s')
      with r show ?thesis by blast
    next
      assume "\<exists>msg. fs env (tick s6) = Some msg
         \<and> appendFile env ''successful_logins.txt'' ?line s6 =
             (Inl (Error msg), s6\<lparr>tick := Suc (tick s6)\<rparr>)"
      then obtain msg where a: "appendFile env ''successful_logins.txt'' ?line s6 =
             (Inl (Error msg), s6\<lparr>tick := Suc (tick s6)\<rparr>)" by blast
      then have r: "r = Inl (Error msg)" and s': "s' = s6\<lparr>tick := Suc (tick s6)\<rparr>"
        using assms k Inr p by (simp_all add: loginAccount_v1_try_def)
      have "quiet s s'" unfolding s' using q6 by (rule quiet_tick)
      with r show ?thesis by blast
    qed
  qed
qed

lemma loginAccount_v1_outcome:
  assumes "loginAccount_v1 env email password s = (r, s')"
  shows "(r = Inr (JBool True) \<and> (\<exists>rest. terminal s s' (Appended ''successful_logins.txt'' (email @ '':'' @ rest))))
   \<or> (r = Inr (JBool False)
        \<and> terminal s s' (Appended ''failed_logins.txt'' (email @ '':'' @ password @ [CHR 0x0A])))
   \<or> ((\<exists>i msg. r = Inl (Error msg) \<and> fs env i = Some msg) \<and> quiet s s')"
proof -
  let ?fail = "Appended ''failed_logins.txt'' (email @ '':'' @ password @ [CHR 0x0A])"
  obtain appId s0 where g: "generateAppId env s = (appId, s0)"
    by (cases "generateAppId env s")
  have "quiet s (snd (generateAppId env s))"
    by (rule quiet_generateAppId) (rule quiet_refl)
  then have q0: "quiet s s0" by (simp add: g)
  obtain x s1 where t: "loginAccount_v1_try env email password appId s0 = (x, s1)"
    by (cases "loginAccount_v1_try env email password appId s0")
  note o = loginAccount_v1_try_outcome [OF t]
  have run: "loginAccount_v1 env email password s =
      (case x of
         Inr v \<Rightarrow> (Inr v, s1)
       | Inl e \<Rightarrow>
           (case appendFile env ''failed_logins.txt'' (email @ '':'' @ password @ [CHR 0x0A]) s1 of
              (Inl e', s2) \<Rightarrow> (Inl e', s2)
            | (Inr u, s2) \<Rightarrow> (Inr (JBool False), s2)))"
    by (simp add: loginAccount_v1_def g t)
  show ?thesis
  proof (cases x)
    case (Inr v)
    with o obtain rest where "v = JBool True"
      and "terminal s0 s1 (Appended ''successful_logins.txt'' (email @ '':'' @ rest))" by auto
    moreover from this q0 have "terminal s s1 (Appended ''successful_logins.txt'' (email @ '':'' @ rest))"
      using terminal_after_quiet by blast
    moreover have "r = Inr v" "s' = s1" using run assms Inr by simp_all
    ultimately show ?thesis by blast
  next
    case (Inl e)
    with o have "quiet s0 s1" by auto
    with q0 have q1: "quiet s s1" by (rule quiet_trans)
    from appendFile_cases [of env s1 "''failed_logins.txt''" "email @ '':'' @ password @ [CHR 0x0A]"]
    show ?thesis
    proof
      assume a: "fs env (tick s1) = None
        \<and> appendFile env ''failed_logins.txt'' (email @ '':'' @ password @ [CHR 0x0A]) s1 =
          (Inr (), s1\<lparr>tick := Suc (tick s1), events := events s1 @ [?fail]\<rparr>)"
      then have r: "r = Inr (JBool False)"
        and s': "s' = s1\<lparr>tick := Suc (tick s1), events := events s1 @ [?fail]\<rparr>"
        using run assms Inl by simp_all
      have "terminal s s' ?fail"
        using q1 by (rule quiet_terminal) (simp_all add: s')
      with r show ?thesis by blast
    next
      assume "\<exists>msg. fs env (tick s1) = Some msg
        \<and> appendFile env ''failed_logins.txt'' (email @ '':'' @ password @ [CHR 0x0A]) s1 =
          (Inl (Error msg), s1\<lparr>tick := Suc (tick s1)\<rparr>)"
      then obtain msg where f: "fs env (tick s1) = Some msg"
        and a: "appendFile env ''failed_logins.txt'' (email @ '':'' @ password @ [CHR 0x0A]) s1 =
          (Inl (Error msg), s1\<lparr>tick := Suc (tick s1)\<rparr>)" by blast
      then have r: "r = Inl (Error msg)" and s': "s' = s1\<lparr>tick := Suc (tick s1)\<rparr>"
        using run assms Inl by simp_all
      have "quiet s s'" unfolding s' using q1 by (rule quiet_tick)
      with r f show ?thesis by blast
    qed
  qed
qed

lemma outcome_records:
  assumes "(r = Inr (JBool True) \<and> (\<exists>rest. terminal s s' (Appended ''successful_logins.txt'' (email @ '':'' @ rest))))
   \<or> (r = Inr (JBool False)
        \<and> terminal s s' (Appended ''failed_logins.txt'' (email @ '':'' @ password @ [CHR 0x0A])))
   \<or> ((\<exists>i msg. r = Inl (Error msg) \<and> fs env i = Some msg) \<and> quiet s s')"
  shows "(r = Inr (JBool True)
        \<and> (\<exists>rest. records s' = records s @ [Appended ''successful_logins.txt'' (email @ '':'' @ rest)]))
   \<or> (r = Inr (JBool False)
        \<and> records s' = records s
             @ [Appended ''failed_logins.txt'' (email @ '':'' @ password @ [CHR 0x0A])])
   \<or> ((\<exists>i msg. r = Inl (Error msg) \<and> fs env i = Some msg) \<and> records s' = records s)"
  using assms terminal_records [of s s'] quiet_records [of s s']
  by (elim disjE conjE exE) (simp_all, blast)

lemma loginAccount_v3_exhausted:
  assumes "generateAppId env s = (ida, ta)"
    and "loginAccount_v3_try env email password ida ta = (Inl ea, sa)"
    and "generateAppId env (setTimeout 5000 sa) = (idb, tb)"
    and "loginAccount_v3_try env email password idb tb = (Inl eb, sb)"
    and "generateAppId env (setTimeout 10000 sb) = (idc, tc)"
    and "loginAccount_v3_try env email password idc tc = (Inl ec, sc)"
    and "fs env (tick sc) = None"
  shows "loginAccount_v3 env email password s =
     (Inr (JBool False),
      sc\<lparr>tick := Suc (tick sc),
          events := events sc @ [Appended ''failed_logins.txt''
                                   (email @ '':'' @ password @ [CHR 0x0A])]\<rparr>)"
  by (simp add: loginAccount_v3_def loginAccount_v3_loop.simps LOGIN_RETRIES_def assms
      appendFile_def)

text \<open>
  C1.  Whenever \<^verbatim>\<open>loginAccount\<close> returns, in V3 (three attempts) as in V1 (one), the lines
  appended to the two result logs have grown by exactly one: a line of
  \<^verbatim>\<open>successful_logins.txt\<close> that starts with the account's \<^verbatim>\<open>email:\<close> when it returns
  \<^verbatim>\<open>true\<close>, the line \<^verbatim>\<open>email:password\<close> of
  \<^verbatim>\<open>failed_logins.txt\<close> when it returns \<^verbatim>\<open>false\<close>, however many attempts and retries
  went before.  It returns unless the file system rejects the write to
  \<^verbatim>\<open>failed_logins.txt\<close>; then \<^verbatim>\<open>loginAccount\<close> itself rejects, nothing has been recorded and
  \<^verbatim>\<open>main\<close> is left.  In V3, when the \<^verbatim>\<open>try\<close> block fails three times in a row (after
  waits of 5000 and 10000 ms), there is no fourth attempt: the result is \<^verbatim>\<open>false\<close> and the
  one record is the line of \<^verbatim>\<open>failed_logins.txt\<close>.
\<close>

theorem one_terminal_record_per_account:
  "(loginAccount_v3 env email password s = (r, s') \<longrightarrow>
      ((r = Inr (JBool True)
          \<and> (\<exists>rest. records s' = records s @ [Appended ''successful_logins.txt'' (email @ '':'' @ rest)]))
        \<or> (r = Inr (JBool False)
          \<and> records s' = records s
               @ [Appended ''failed_logins.txt'' (email @ '':'' @ password @ [CHR 0x0A])])
        \<or> ((\<exists>i msg. r = Inl (Error msg) \<and> fs env i = Some msg) \<and> records s' = records s)))
   \<and> (loginAccount_v1 env email password s = (r, s') \<longrightarrow>
      ((r = Inr (JBool True)
          \<and> (\<exists>rest. records s' = records s @ [Appended ''successful_logins.txt'' (email @ '':'' @ rest)]))
        \<or> (r = Inr (JBool False)
          \<and> records s' = records s
               @ [Appended ''failed_logins.txt'' (email @ '':'' @ password @ [CHR 0x0A])])
        \<or> ((\<exists>i msg. r = Inl (Error msg) \<and> fs env i = Some msg) \<and> records s' = records s)))
   \<and> (generateAppId env s = (ida, ta)
      \<and> loginAccount_v3_try env email password ida ta = (Inl ea, sa)
      \<and> generateAppId env (setTimeout 5000 sa) = (idb, tb)
      \<and> loginAccount_v3_try env email password idb tb = (Inl eb, sb)
      \<and> generateAppId env (setTimeout 10000 sb) = (idc, tc)
      \<and> loginAccount_v3_try env email password idc tc = (Inl ec, sc)
      \<and> fs env (tick sc) = None \<longrightarrow>
      loginAccount_v3 env email password s =
        (Inr (JBool False),
         sc\<lparr>tick := Suc (tick sc),
            events := events sc @ [Appended ''failed_logins.txt''
                                     (email @ '':'' @ password @ [CHR 0x0A])]\<rparr>)
      \<and> records (sc\<lparr>tick := Suc (tick sc),
            events := events sc @ [Appended ''failed_logins.txt''
                                     (email @ '':'' @ password @ [CHR 0x0A])]\<rparr>) =
          records s @ [Appended ''failed_logins.txt'' (email @ '':'' @ password @ [CHR 0x0A])])"
proof -
  have a: "loginAccount_v3 env email password s = (r, s') \<longrightarrow>
      ((r = Inr (JBool True)
          \<and> (\<exists>rest. records s' = records s @ [Appended ''successful_logins.txt'' (email @ '':'' @ rest)]))
        \<or> (r = Inr (JBool False)
          \<and> records s' = records s
               @ [Appended ''failed_logins.txt'' (email @ '':'' @ password @ [CHR 0x0A])])
        \<or> ((\<exists>i msg. r = Inl (Error msg) \<and> fs env i = Some msg) \<and> records s' = records s))"
    using outcome_records [OF loginAccount_v3_outcome, of env email password s r s'] by blast
  have b: "loginAccount_v1 env email password s = (r, s') \<longrightarrow>
      ((r = Inr (JBool True)
          \<and> (\<exists>rest. records s' = records s @ [Appended ''successful_logins.txt'' (email @ '':'' @ rest)]))
        \<or> (r = Inr (JBool False)
          \<and> records s' = records s
               @ [Appended ''failed_logins.txt'' (email @ '':'' @ password @ [CHR 0x0A])])
        \<or> ((\<exists>i msg. r = Inl (Error msg) \<and> fs env i = Some msg) \<and> records s' = records s))"
    using outcome_records [OF loginAccount_v1_outcome, of env email password s r s'] by blast
  have c: "generateAppId env s = (ida, ta)
      \<and> loginAccount_v3_try env email password ida ta = (Inl ea, sa)
      \<and> generateAppId env (setTimeout 5000 sa) = (idb, tb)
      \<and> loginAccount_v3_try env email password idb tb = (Inl eb, sb)
      \<and> generateAppId env (setTimeout 10000 sb) = (idc, tc)
      \<and> loginAccount_v3_try env email password idc tc = (Inl ec, sc)
      \<and> fs env (tick sc) = None \<longrightarrow>
      loginAccount_v3 env email password s =
        (Inr (JBool False),
         sc\<lparr>tick := Suc (tick sc),
            events := events sc @ [Appended ''failed_logins.txt''
                                     (email @ '':'' @ password @ [CHR 0x0A])]\<rparr>)
      \<and> records (sc\<lparr>tick := Suc (tick sc),
            events := events sc @ [Appended ''failed_logins.txt''
                                     (email @ '':'' @ password @ [CHR 0x0A])]\<rparr>) =
          records s @ [Appended ''failed_logins.txt'' (email @ '':'' @ password @ [CHR 0x0A])]"
  proof (intro impI, elim conjE)
    let ?s' = "sc\<lparr>tick := Suc (tick sc),
            events := events sc @ [Appended ''failed_logins.txt''
                                     (email @ '':'' @ password @ [CHR 0x0A])]\<rparr>"
    assume h: "generateAppId env s = (ida, ta)"
      "loginAccount_v3_try env email password ida ta = (Inl ea, sa)"
      "generateAppId env (setTimeout 5000 sa) = (idb, tb)"
      "loginAccount_v3_try env email password idb tb = (Inl eb, sb)"
      "generateAppId env (setTimeout 10000 sb) = (idc, tc)"
      "loginAccount_v3_try env email password idc tc = (Inl ec, sc)"
      "fs env (tick sc) = None"
    then have run: "loginAccount_v3 env email password s = (Inr (JBool False), ?s')"
      by (rule loginAccount_v3_exhausted)
    from outcome_records [OF loginAccount_v3_outcome [OF run]]
    have "records ?s' =
        records s @ [Appended ''failed_logins.txt'' (email @ '':'' @ password @ [CHR 0x0A])]"
      by simp
    with run show "loginAccount_v3 env email password s = (Inr (JBool False), ?s')
      \<and> records ?s' =
        records s @ [Appended ''failed_logins.txt'' (email @ '':'' @ password @ [CHR 0x0A])]"
      by blast
  qed
  show ?thesis by (intro conjI) (rule a b c)+
qed

theorem one_terminal_record_per_account_witness:
  "loginAccount_v3 env_down ''a@x.io'' ''pw'' world0 =
     (Inr (JBool False),
      world0\<lparr>tick := 76,
        events := [Slept 1000, Slept 2000, Slept 5000, Slept 1000, Slept 2000, Slept 10000,
                   Slept 1000, Slept 2000,
                   Appended ''failed_logins.txt'' (''a@x.io:pw'' @ [CHR 0x0A])]\<rparr>)
   \<and> records (world0\<lparr>tick := 76,
        events := [Slept 1000, Slept 2000, Slept 5000, Slept 1000, Slept 2000, Slept 10000,
                   Slept 1000, Slept 2000,
                   Appended ''failed_logins.txt'' (''a@x.io:pw'' @ [CHR 0x0A])]\<rparr>) =
       [Appended ''failed_logins.txt'' (''a@x.io:pw'' @ [CHR 0x0A])]
   \<and> loginAccount_v1 env_down ''a@x.io'' ''pw'' world0 =
     (Inr (JBool False),
      world0\<lparr>tick := 26,
        events := [Slept 1000, Slept 2000,
                   Appended ''failed_logins.txt'' (''a@x.io:pw'' @ [CHR 0x0A])]\<rparr>)
   \<and> records (world0\<lparr>tick := 26,
        events := [Slept 1000, Slept 2000,
                   Appended ''failed_logins.txt'' (''a@x.io:pw'' @ [CHR 0x0A])]\<rparr>) =
       [Appended ''failed_logins.txt'' (''a@x.io:pw'' @ [CHR 0x0A])]"
proof -
  let ?id = "''678888888888888888888888''"
  let ?er = "Error ''Failed to get puzzle ID after 3 attempts: ECONNREFUSED''"
  let ?fail = "Appended ''failed_logins.txt'' (''a@x.io:pw'' @ [CHR 0x0A])"
  let ?ta = "world0\<lparr>tick := 22\<rparr>"
  let ?sa = "world0\<lparr>tick := 25, events := [Slept 1000, Slept 2000]\<rparr>"
  let ?tb = "world0\<lparr>tick := 47, events := [Slept 1000, Slept 2000, Slept 5000]\<rparr>"
  let ?sb = "world0\<lparr>tick := 50,
      events := [Slept 1000, Slept 2000, Slept 5000, Slept 1000, Slept 2000]\<rparr>"
  let ?tc = "world0\<lparr>tick := 72,
      events := [Slept 1000, Slept 2000, Slept 5000, Slept 1000, Slept 2000, Slept 10000]\<rparr>"
  let ?sc = "world0\<lparr>tick := 75,
      events := [Slept 1000, Slept 2000, Slept 5000, Slept 1000, Slept 2000, Slept 10000,
                 Slept 1000, Slept 2000]\<rparr>"
  let ?s3 = "world0\<lparr>tick := 76,
      events := [Slept 1000, Slept 2000, Slept 5000, Slept 1000, Slept 2000, Slept 10000,
                 Slept 1000, Slept 2000, ?fail]\<rparr>"
  let ?s1 = "world0\<lparr>tick := 26, events := [Slept 1000, Slept 2000, ?fail]\<rparr>"
  note gdefs = generateAppId_def generateAppId_loop.simps env_down_def world0_def hex_at_def
    hexDigits_def setTimeout_def
  note tdefs = loginAccount_v3_try_def loginAccount_v3_token_def getPuzzleId_v3_unroll
    getPuzzleId_v3_try_def getProxyAgent_def fetch_def env_down_def world0_def setTimeout_def
  have ga: "generateAppId env_down world0 = (?id, ?ta)"
    by (simp add: gdefs)
  have gb: "generateAppId env_down (setTimeout 5000 ?sa) = (?id, ?tb)"
    by (simp add: gdefs)
  have gc: "generateAppId env_down (setTimeout 10000 ?sb) = (?id, ?tc)"
    by (simp add: gdefs)
  have ta: "loginAccount_v3_try env_down ''a@x.io'' ''pw'' ?id ?ta = (Inl ?er, ?sa)"
    by (simp add: tdefs)
  have tb: "loginAccount_v3_try env_down ''a@x.io'' ''pw'' ?id ?tb = (Inl ?er, ?sb)"
    by (simp add: tdefs)
  have tc: "loginAccount_v3_try env_down ''a@x.io'' ''pw'' ?id ?tc = (Inl ?er, ?sc)"
    by (simp add: tdefs)
  have f: "fs env_down (tick ?sc) = None"
    by (simp add: env_down_def)
  have A: "loginAccount_v3 env_down ''a@x.io'' ''pw'' world0 =
        (Inr (JBool False),
         ?sc\<lparr>tick := Suc (tick ?sc),
            events := events ?sc @ [Appended ''failed_logins.txt''
                                     (''a@x.io'' @ '':'' @ ''pw'' @ [CHR 0x0A])]\<rparr>)
      \<and> records (?sc\<lparr>tick := Suc (tick ?sc),
            events := events ?sc @ [Appended ''failed_logins.txt''
                                     (''a@x.io'' @ '':'' @ ''pw'' @ [CHR 0x0A])]\<rparr>) =
          records world0 @ [Appended ''failed_logins.txt'' (''a@x.io'' @ '':'' @ ''pw'' @ [CHR 0x0A])]"
    using one_terminal_record_per_account [where env = env_down and s = world0
        and email = "''a@x.io''" and password = "''pw''" and ida = ?id and ta = ?ta
        and ea = ?er and sa = ?sa and idb = ?id and tb = ?tb and eb = ?er and sb = ?sb
        and idc = ?id and tc = ?tc and ec = ?er and sc = ?sc,
        THEN conjunct2, THEN conjunct2] ga gb gc ta tb tc f
    by blast
  have r0: "records world0 = []"
    by (simp add: records_def world0_def)
  have v1: "loginAccount_v1 env_down ''a@x.io'' ''pw'' world0 = (Inr (JBool False), ?s1)"
    by (simp add: loginAccount_v1_def loginAccount_v1_try_def loginAccount_v1_token_def
        getPuzzleId_v1_def getPuzzleId_v1_loop.simps getPuzzleId_v1_try_def MAX_RETRIES_def
        fetch_def appendFile_def gdefs)
  have B: "records ?s1 = records world0
      @ [Appended ''failed_logins.txt'' (''a@x.io'' @ '':'' @ ''pw'' @ [CHR 0x0A])]"
    using one_terminal_record_per_account [where env = env_down and s = world0
        and email = "''a@x.io''" and password = "''pw''" and r = "Inr (JBool False)"
        and s' = ?s1, THEN conjunct2, THEN conjunct1] v1
    by simp
  from A B r0 v1 show ?thesis by (simp add: world0_def)
qed

subsection \<open>Retrying without bound (V4)\<close>


lemma telegram_sendTelegramStatus [simp]:
  "telegramBot (sendTelegramStatus env msg s) = telegramBot s"
  "telegramChatId (sendTelegramStatus env msg s) = telegramChatId s"
  by (simp_all add: sendTelegramStatus_def)

lemma console_log_simps [simp]:
  "events (console_log msg s) = events s @ [Logged msg]"
  "telegramBot (console_log msg s) = telegramBot s"
  "telegramChatId (console_log msg s) = telegramChatId s"
  by (simp_all add: console_log_def)

lemma telegram_setTimeout [simp]:
  "telegramBot (setTimeout d s) = telegramBot s"
  "telegramChatId (setTimeout d s) = telegramChatId s"
  by (simp_all add: setTimeout_def)











lemma floor_half [simp]: "\<lfloor>(11 / 2 :: rat)\<rfloor> = 5"
  by (simp add: floor_eq_iff)




subsection \<open>The batch runner\<close>












end
